theory Spec2Isabelle
  imports Complex_Main
begin

section \<open>Text: Python strings as lists of code points\<close>

text \<open>
  A Python \<open>str\<close> is a sequence of Unicode code points, and \<open>len\<close> counts code points.
  The emoji ranges of the scorer lie above U+1F300, so a character is modelled as its
  code point (a natural number) and a string as a list of them. String constants of the
  program are written \<open>lit ''...''\<close>.

  Character classes. \<open>is_space\<close> is the complete set of code points for which Python's
  \<open>str.isspace\<close> and the pattern \<open>\s\<close> hold. \<open>is_digit\<close> (\<open>\d\<close>), \<open>is_word\<close> (\<open>\w\<close>) and
  \<open>lower\<close> follow Python on the ASCII range; digits, letters and case pairs outside ASCII
  are not tabulated here, with one exception: U+0130 is the only code point whose
  lowercase form has more than one code point (\<open>[0x69, 0x307]\<close>), and it is included
  because it is the only case in which \<open>str.lower\<close> changes the length of a string.
  So on a text with digits or letters outside ASCII a score computed here can differ from
  the program's. The theorems on all texts do not look into these tables; the one on the
  empty keyword uses the length of the lower-cased text only, which is Python's for every
  text. The concrete texts of the witnesses and counterexamples are ASCII, or U+0130.
\<close>

type_synonym str = "nat list"

abbreviation lit :: "string \<Rightarrow> str" where
  "lit s \<equiv> map of_char s"

definition is_space :: "nat \<Rightarrow> bool" where
  "is_space c \<longleftrightarrow>
     (9 \<le> c \<and> c \<le> 13) \<or> (28 \<le> c \<and> c \<le> 32) \<or> c = 133 \<or> c = 160 \<or> c = 5760 \<or>
     (8192 \<le> c \<and> c \<le> 8202) \<or> c = 8232 \<or> c = 8233 \<or> c = 8239 \<or> c = 8287 \<or> c = 12288"

definition is_digit :: "nat \<Rightarrow> bool" where
  "is_digit c \<longleftrightarrow> 48 \<le> c \<and> c \<le> 57"

definition is_upper_az :: "nat \<Rightarrow> bool" where
  "is_upper_az c \<longleftrightarrow> 65 \<le> c \<and> c \<le> 90"

definition is_lower_az :: "nat \<Rightarrow> bool" where
  "is_lower_az c \<longleftrightarrow> 97 \<le> c \<and> c \<le> 122"

definition is_word :: "nat \<Rightarrow> bool" where
  "is_word c \<longleftrightarrow> is_upper_az c \<or> is_lower_az c \<or> is_digit c \<or> c = 95"

definition is_dot :: "nat \<Rightarrow> bool" where
  \<comment> \<open>the pattern \<open>.\<close> without DOTALL: anything but a newline\<close>
  "is_dot c \<longleftrightarrow> c \<noteq> 10"

definition is_emoji :: "nat \<Rightarrow> bool" where
  \<comment> \<open>\<open>[\U0001F600-\U0001F64F\U0001F300-\U0001F5FF]\<close>\<close>
  "is_emoji c \<longleftrightarrow> (128512 \<le> c \<and> c \<le> 128591) \<or> (127744 \<le> c \<and> c \<le> 128511)"

definition lower_cp :: "nat \<Rightarrow> str" where
  "lower_cp c = (if is_upper_az c then [c + 32] else if c = 304 then [105, 775] else [c])"

definition lower :: "str \<Rightarrow> str" where
  "lower s = concat (map lower_cp s)"

subsection \<open>The methods of \<open>str\<close> the analyzers call\<close>

definition startswith :: "str \<Rightarrow> str \<Rightarrow> bool" where
  "startswith s p \<longleftrightarrow> take (length p) s = p"

definition endswith :: "str \<Rightarrow> str \<Rightarrow> bool" where
  "endswith s p \<longleftrightarrow> length p \<le> length s \<and> drop (length s - length p) s = p"

text \<open>\<open>sub in s\<close>: some suffix of \<open>s\<close> starts with \<open>sub\<close>; the empty string is in every string.\<close>

fun py_in :: "str \<Rightarrow> str \<Rightarrow> bool" where
  "py_in sub [] = (sub = [])"
| "py_in sub (c # cs) = (startswith (c # cs) sub \<or> py_in sub cs)"

text \<open>
  \<open>s.count(sub)\<close> scans from the left and counts occurrences that do not overlap: after an
  occurrence the scan resumes behind it (\<open>skip\<close> is the number of characters of the last
  occurrence still to pass). For the empty \<open>sub\<close> Python returns \<open>len(s) + 1\<close>.
\<close>

fun count_scan :: "str \<Rightarrow> nat \<Rightarrow> str \<Rightarrow> nat" where
  "count_scan sub skip [] = 0"
| "count_scan sub skip (c # cs) =
     (if 0 < skip then count_scan sub (skip - 1) cs
      else if startswith (c # cs) sub then 1 + count_scan sub (length sub - 1) cs
      else count_scan sub 0 cs)"

definition py_count :: "str \<Rightarrow> str \<Rightarrow> nat" where
  "py_count s sub = (if sub = [] then length s + 1 else count_scan sub 0 s)"

text \<open>
  \<open>s.split(sep)\<close> for a non-empty separator (the program passes the constants \<open>'\n\n'\<close> and
  \<open>'\n'\<close> only): the pieces between the non-overlapping occurrences of \<open>sep\<close>, empty pieces
  included. \<open>cur\<close> holds the piece being read, reversed.
\<close>

fun split_scan :: "str \<Rightarrow> nat \<Rightarrow> str \<Rightarrow> str \<Rightarrow> str list" where
  "split_scan sep skip cur [] = [rev cur]"
| "split_scan sep skip cur (c # cs) =
     (if 0 < skip then split_scan sep (skip - 1) cur cs
      else if startswith (c # cs) sep then rev cur # split_scan sep (length sep - 1) [] cs
      else split_scan sep 0 (c # cur) cs)"

definition py_split :: "str \<Rightarrow> str \<Rightarrow> str list" where
  "py_split s sep = split_scan sep 0 [] s"

definition strip :: "str \<Rightarrow> str" where
  "strip s = rev (dropWhile is_space (rev (dropWhile is_space s)))"

definition replace_char :: "nat \<Rightarrow> nat \<Rightarrow> str \<Rightarrow> str" where
  \<comment> \<open>\<open>s.replace(old, new)\<close> for one-character \<open>old\<close> and \<open>new\<close>\<close>
  "replace_char old new s = map (\<lambda>c. if c = old then new else c) s"

text \<open>
  \<open>s.title()\<close>: a letter is upper-cased when the character before it is not a letter and
  lower-cased otherwise. The flag says whether the previous character was a letter.
\<close>

fun title_scan :: "bool \<Rightarrow> str \<Rightarrow> str" where
  "title_scan prev [] = []"
| "title_scan prev (c # cs) =
     (if is_lower_az c then (if prev then c else c - 32) # title_scan True cs
      else if is_upper_az c then (if prev then c + 32 else c) # title_scan True cs
      else c # title_scan False cs)"

definition title :: "str \<Rightarrow> str" where
  "title s = title_scan False s"

section \<open>Floating point\<close>

text \<open>
  Python's \<open>float\<close> is IEEE binary64. A float is modelled by the rational number it
  denotes. \<open>to_double q\<close> is the binary64 value nearest to \<open>q\<close> (ties to even, subnormals
  included, no overflow: every quantity below is a quotient of counts bounded by the
  length of the text). Division and multiplication round their exact result once
  (\<open>fdiv\<close>, \<open>fmul\<close>). The additions of the scorer add multiples of 0.5 between 0 and 50,
  which binary64 represents exactly, so they are written as exact additions.
  \<open>round(x, n)\<close> rounds the exact value of the float \<open>x\<close> to \<open>n\<close> decimals, ties to even,
  and returns the float nearest to that decimal.
\<close>

definition round_half_even :: "rat \<Rightarrow> int" where
  "round_half_even x =
     (let f = \<lfloor>x\<rfloor>; d = x - of_int f
      in if d < 1 / 2 then f else if 1 / 2 < d then f + 1 else if even f then f else f + 1)"

fun normalise :: "nat \<Rightarrow> rat \<Rightarrow> int \<Rightarrow> rat \<times> int" where
  "normalise 0 m e = (m, e)"
| "normalise (Suc n) m e =
     (if 2 ^ 53 \<le> m then normalise n (m / 2) (e + 1)
      else if m < 2 ^ 52 \<and> - 1074 < e then normalise n (m * 2) (e - 1)
      else (m, e))"

definition pow2 :: "int \<Rightarrow> rat" where
  "pow2 e = (if 0 \<le> e then 2 ^ nat e else 1 / 2 ^ nat (- e))"

definition to_double :: "rat \<Rightarrow> rat" where
  "to_double q =
     (if q = 0 then 0
      else case normalise 2200 \<bar>q\<bar> 0 of (m, e) \<Rightarrow> sgn q * of_int (round_half_even m) * pow2 e)"

definition fdiv :: "rat \<Rightarrow> rat \<Rightarrow> rat" where
  "fdiv a b = to_double (a / b)"

definition fmul :: "rat \<Rightarrow> rat \<Rightarrow> rat" where
  "fmul a b = to_double (a * b)"

definition py_round :: "rat \<Rightarrow> nat \<Rightarrow> rat" where
  "py_round x ndigits = to_double (of_int (round_half_even (x * 10 ^ ndigits)) / 10 ^ ndigits)"

section \<open>Regular expressions\<close>

text \<open>
  Every pattern of the two analyzers is a sequence of atoms: the assertions \<open>^\<close> and \<open>$\<close>
  (both only used under \<open>re.MULTILINE\<close>), \<open>\b\<close>, and a character class repeated between
  \<open>lo\<close> and \<open>hi\<close> times, greedily or lazily. \<open>rmatch\<close> is Python's backtracking matcher on
  such a sequence: it tries the alternatives in priority order and returns, for the first
  that succeeds, the number of characters each atom consumed. \<open>prev\<close> is the character
  before the current position, \<open>None\<close> at the start of the text.
\<close>

datatype atom =
    Bol
  | Eol
  | WordB
  | Rep "nat \<Rightarrow> bool" nat "nat option" bool

abbreviation Cls :: "(nat \<Rightarrow> bool) \<Rightarrow> atom" where
  "Cls p \<equiv> Rep p 1 (Some 1) True"

abbreviation Plus :: "(nat \<Rightarrow> bool) \<Rightarrow> atom" where
  "Plus p \<equiv> Rep p 1 None True"

abbreviation PlusLazy :: "(nat \<Rightarrow> bool) \<Rightarrow> atom" where
  "PlusLazy p \<equiv> Rep p 1 None False"

abbreviation Star :: "(nat \<Rightarrow> bool) \<Rightarrow> atom" where
  "Star p \<equiv> Rep p 0 None True"

definition lits :: "string \<Rightarrow> atom list" where
  "lits s = map (\<lambda>c. Cls (\<lambda>x. x = of_char c)) s"

definition is_word_opt :: "nat option \<Rightarrow> bool" where
  "is_word_opt x = (case x of None \<Rightarrow> False | Some c \<Rightarrow> is_word c)"

definition first_char :: "str \<Rightarrow> nat option" where
  "first_char s = (case s of [] \<Rightarrow> None | c # _ \<Rightarrow> Some c)"

fun zero_width :: "nat list option \<Rightarrow> nat list option" where
  "zero_width None = None"
| "zero_width (Some ns) = Some (0 # ns)"

fun one_more :: "nat list option \<Rightarrow> nat list option" where
  "one_more (Some (n # ns)) = Some (Suc n # ns)"
| "one_more _ = None"

fun or_else :: "'a option \<Rightarrow> 'a option \<Rightarrow> 'a option" where
  "or_else (Some x) _ = Some x"
| "or_else None y = y"

fun rmatch :: "atom list \<Rightarrow> nat option \<Rightarrow> str \<Rightarrow> nat list option" where
  "rmatch [] prev s = Some []"
| "rmatch (Bol # as) prev s =
     (if prev = None \<or> prev = Some 10 then zero_width (rmatch as prev s) else None)"
| "rmatch (Eol # as) prev s =
     (if first_char s = None \<or> first_char s = Some 10 then zero_width (rmatch as prev s)
      else None)"
| "rmatch (WordB # as) prev s =
     (if is_word_opt prev \<noteq> is_word_opt (first_char s) then zero_width (rmatch as prev s)
      else None)"
| "rmatch (Rep p lo hi greedy # as) prev [] =
     (if lo = 0 then zero_width (rmatch as prev []) else None)"
| "rmatch (Rep p lo hi greedy # as) prev (c # cs) =
     (let stop = (if lo = 0 then zero_width (rmatch as prev (c # cs)) else None);
          more = (if p c \<and> hi \<noteq> Some 0
                  then one_more (rmatch (Rep p (lo - 1) (map_option (\<lambda>h. h - 1) hi) greedy # as)
                                        (Some c) cs)
                  else None)
      in if greedy then or_else more stop else or_else stop more)"

text \<open>
  The scan behind \<open>re.findall\<close>, \<open>re.search\<close> and \<open>re.split\<close>: try a match at each position
  from the left; after a match resume behind it. Every pattern of the program consumes at
  least one character, so no match is attempted at the end of the text. A match is kept
  as the text from its start together with the lengths of its pieces.
\<close>

fun scan :: "atom list \<Rightarrow> nat option \<Rightarrow> nat \<Rightarrow> str \<Rightarrow> (str \<times> nat list) list" where
  "scan pat prev skip [] = []"
| "scan pat prev skip (c # cs) =
     (if 0 < skip then scan pat (Some c) (skip - 1) cs
      else case rmatch pat prev (c # cs) of
             Some ns \<Rightarrow> (c # cs, ns) # scan pat (Some c) (sum_list ns - 1) cs
           | None \<Rightarrow> scan pat (Some c) 0 cs)"

definition group :: "nat \<Rightarrow> str \<times> nat list \<Rightarrow> str" where
  \<comment> \<open>the text consumed by atom number \<open>i\<close> of a match\<close>
  "group i m = (case m of (s, ns) \<Rightarrow> take (ns ! i) (drop (sum_list (take i ns)) s))"

definition re_finditer :: "atom list \<Rightarrow> str \<Rightarrow> (str \<times> nat list) list" where
  "re_finditer pat s = scan pat None 0 s"

definition re_search :: "atom list \<Rightarrow> str \<Rightarrow> bool" where
  "re_search pat s \<longleftrightarrow> re_finditer pat s \<noteq> []"

fun split_re :: "atom list \<Rightarrow> nat option \<Rightarrow> nat \<Rightarrow> str \<Rightarrow> str \<Rightarrow> str list" where
  "split_re pat prev skip cur [] = [rev cur]"
| "split_re pat prev skip cur (c # cs) =
     (if 0 < skip then split_re pat (Some c) (skip - 1) cur cs
      else case rmatch pat prev (c # cs) of
             Some ns \<Rightarrow> rev cur # split_re pat (Some c) (sum_list ns - 1) [] cs
           | None \<Rightarrow> split_re pat (Some c) 0 (c # cur) cs)"

definition re_split :: "atom list \<Rightarrow> str \<Rightarrow> str list" where
  "re_split pat s = split_re pat None 0 [] s"

subsection \<open>The patterns of the program\<close>

definition word_pat :: "atom list" where
  \<comment> \<open>\<open>\b\w+\b\<close>\<close>
  "word_pat = [WordB, Plus is_word, WordB]"

definition sentence_end_pat :: "atom list" where
  \<comment> \<open>\<open>[.!?]+\<close>\<close>
  "sentence_end_pat = [Plus (\<lambda>c. c \<in> set (lit ''.!?''))]"

definition h1_pat :: "atom list" where
  \<comment> \<open>\<open>^#\s+\<close>\<close>
  "h1_pat = Bol # lits ''#'' @ [Plus is_space]"

definition h2_pat :: "atom list" where
  \<comment> \<open>\<open>^##\s+\<close>\<close>
  "h2_pat = Bol # lits ''##'' @ [Plus is_space]"

definition h3_pat :: "atom list" where
  \<comment> \<open>\<open>^###\s+\<close>\<close>
  "h3_pat = Bol # lits ''###'' @ [Plus is_space]"

definition list_pat :: "atom list" where
  \<comment> \<open>\<open>^\s*[-*+]\s+\<close>\<close>
  "list_pat = [Bol, Star is_space, Cls (\<lambda>c. c \<in> set (lit ''-*+'')), Plus is_space]"

definition link_pat :: "atom list" where
  \<comment> \<open>\<open>\[.+?\]\(.+?\)\<close>\<close>
  "link_pat = lits ''['' @ [PlusLazy is_dot] @ lits '']('' @ [PlusLazy is_dot] @ lits '')''"

definition heading_pat :: "atom list" where
  \<comment> \<open>\<open>^#{1,6}\s+(.+)$\<close>; the group is atom number 3\<close>
  "heading_pat = [Bol, Rep (\<lambda>c. c = of_char CHR ''#'') 1 (Some 6) True, Plus is_space,
                  Plus is_dot, Eol]"

definition percent_sign_pat :: "atom list" where
  \<comment> \<open>\<open>\d+%\<close>\<close>
  "percent_sign_pat = Plus is_digit # lits ''%''"

definition percent_word_pat :: "atom list" where
  \<comment> \<open>\<open>\d+ percent\<close>\<close>
  "percent_word_pat = Plus is_digit # lits '' percent''"

definition numbered_pat :: "atom list" where
  \<comment> \<open>\<open>\d+\.\<close>\<close>
  "numbered_pat = Plus is_digit # lits ''.''"

definition caps_pat :: "atom list" where
  \<comment> \<open>\<open>\b[A-Z]{4,}\b\<close>\<close>
  "caps_pat = [WordB, Rep is_upper_az 4 None True, WordB]"

definition emoji_pat :: "atom list" where
  "emoji_pat = [Plus is_emoji]"

section \<open>Content Scorer (\<open>src/utils/content_scorer.py\<close>)\<close>

abbreviation NL :: str where
  "NL \<equiv> [10]"

text \<open>
  The report is a Python dict; the keys a variant does not set are \<open>None\<close> here.
  \<open>dimension_scores\<close> is the dict \<open>scores\<close>, kept as the list of its items in insertion
  order. \<open>timestamp\<close> is \<open>datetime.now().isoformat()\<close>: the reading of the clock is an
  argument \<open>now\<close> of the functions that build a report.
\<close>

record score_report =
  overall_score :: rat
  dimension_scores :: "(str \<times> rat) list"
  grade :: str
  character_count :: "nat option"
  strengths :: "str list option"
  improvements :: "str list option"
  timestamp :: str

definition sentences_of :: "str \<Rightarrow> str list" where
  \<comment> \<open>\<open>[s.strip() for s in re.split(r'[.!?]+', content) if s.strip()]\<close>\<close>
  "sentences_of content =
     map strip (filter (\<lambda>s. strip s \<noteq> []) (re_split sentence_end_pat content))"

definition score_engagement :: "str \<Rightarrow> rat" where
  "score_engagement content =
     (let score = 5;
          score = (if py_in (lit ''?'') content then score + 1 else score);
          story_words = [lit ''story'', lit ''experience'', lit ''learned'', lit ''discovered'',
                         lit ''realized''];
          score = (if list_ex (\<lambda>word. py_in word (lower content)) story_words
                   then score + 1 else score);
          score = (if py_in (lit ''example'') (lower content) \<or>
                      py_in (lit ''for instance'') (lower content)
                   then score + 1 / 2 else score);
          score = (if re_search percent_sign_pat content \<or> re_search percent_word_pat content
                   then score + 1 else score);
          emotion_words = [lit ''amazing'', lit ''incredible'', lit ''excited'', lit ''surprised'',
                           lit ''frustrated'', lit ''happy''];
          score = (if list_ex (\<lambda>word. py_in word (lower content)) emotion_words
                   then score + 1 / 2 else score)
      in min 10 score)"

definition score_structure :: "str \<Rightarrow> rat" where
  "score_structure content =
     (let score = 5;
          h2_count = length (re_finditer h2_pat content);
          score = (if 3 \<le> h2_count then score + 2
                   else if 2 \<le> h2_count then score + 1 else score);
          score = (if re_search list_pat content then score + 1 else score);
          paragraphs = py_split content (NL @ NL);
          score = (if 5 \<le> length paragraphs then score + 1 else score);
          score = (if 500 < length content
                   then (let score = (if list_ex (\<lambda>word. py_in word (lower (take 200 content)))
                                           [lit ''introduction'', lit ''in this'', lit ''today'']
                                      then score + 1 / 2 else score)
                         in if list_ex (\<lambda>word. py_in word
                                          (lower (drop (length content - 200) content)))
                                 [lit ''conclusion'', lit ''in summary'', lit ''to wrap up'']
                            then score + 1 / 2 else score)
                   else score)
      in min 10 score)"

definition score_clarity :: "str \<Rightarrow> rat" where
  "score_clarity content =
     (let score = 7;
          sentences = sentences_of content;
          words = re_finditer word_pat content;
          score = (if sentences \<noteq> []
                   then (let avg_sentence_length =
                               fdiv (of_nat (length words)) (of_nat (length sentences));
                             score = (if 25 < avg_sentence_length then score - 2
                                      else if 20 < avg_sentence_length then score - 1
                                      else score)
                         in if avg_sentence_length < 15 then score + 1 else score)
                   else score);
          transitions = [lit ''however'', lit ''therefore'', lit ''moreover'', lit ''furthermore'',
                         lit ''additionally'', lit ''consequently''];
          score = (if list_ex (\<lambda>word. py_in word (lower content)) transitions
                   then score + 1 else score)
      in min 10 (max 0 score))"

definition score_actionability :: "str \<Rightarrow> rat" where
  "score_actionability content =
     (let score = 5;
          action_words = [lit ''learn'', lit ''discover'', lit ''implement'', lit ''apply'',
                          lit ''use'', lit ''try'', lit ''start'', lit ''begin''];
          action_count = length (filter (\<lambda>word. py_in word (lower content)) action_words);
          score = score + min 2 (of_nat action_count * (1 / 2));
          score = (if py_in (lit ''step'') (lower content) \<or> re_search numbered_pat content
                   then score + 3 / 2 else score);
          score = (if py_in (lit ''example'') (lower content) \<or>
                      py_in (lit ''here'' @ [39] @ lit ''s how'') (lower content)
                   then score + 1 else score);
          cta_words = [lit ''try'', lit ''start'', lit ''download'', lit ''sign up'',
                       lit ''learn more'', lit ''get started''];
          score = (if list_ex (\<lambda>word. py_in word (lower content)) cta_words
                   then score + 1 / 2 else score)
      in min 10 score)"

definition score_professionalism :: "str \<Rightarrow> rat" where
  "score_professionalism content =
     (let score = 8;
          exclamation_count = py_count content (lit ''!'');
          score = (if 5 < exclamation_count then score - 2
                   else if 3 < exclamation_count then score - 1 else score);
          caps_words = re_finditer caps_pat content;
          score = (if 3 < length caps_words then score - 1 else score);
          score = (if re_search h1_pat content then score + 1 else score)
      in min 10 (max 0 score))"

definition score_hook :: "str \<Rightarrow> rat" where
  "score_hook content =
     (let score = 5;
          first_line = (if content \<noteq> [] then hd (py_split content NL) else []);
          score = (if endswith (strip first_line) (lit ''?'') then score + 2 else score);
          score = (if re_search percent_sign_pat first_line then score + 2 else score);
          score = (if list_ex (\<lambda>word. py_in word (lower first_line))
                        [lit ''never'', lit ''always'', lit ''secret'', lit ''truth'']
                   then score + 1 else score);
          score = (if length first_line < 100 then score + 1 else score)
      in min 10 score)"

definition score_linkedin_engagement :: "str \<Rightarrow> rat" where
  "score_linkedin_engagement content =
     (let score = 5;
          line_breaks = py_count content (NL @ NL);
          score = (if 3 \<le> line_breaks then score + 3 / 2 else score);
          score = (if py_in (lit ''?'') content then score + 1 else score);
          score = (if list_ex (\<lambda>word. py_in word (lower content))
                        [lit ''you'', lit ''your'', lit ''we'', lit ''our'']
                   then score + 1 else score);
          score = (if py_in (lit ''#'') content then score + 1 / 2 else score);
          score = (if list_ex (\<lambda>phrase. py_in phrase (lower content))
                        [lit ''what do you think'', lit ''share your'', lit ''comment below'']
                   then score + 1 else score)
      in min 10 score)"

definition score_cta :: "str \<Rightarrow> rat" where
  "score_cta content =
     (let score = 5;
          cta_phrases = [lit ''comment'', lit ''share'', lit ''follow'', lit ''connect'',
                         lit ''reach out'', lit ''let me know'', lit ''what do you think'',
                         lit ''join'', lit ''learn more''];
          cta_count = length (filter (\<lambda>phrase. py_in phrase (lower content)) cta_phrases);
          score = score + min 3 (of_nat cta_count * (3 / 2));
          last_section = lower (drop (length content - 200) content);
          score = (if list_ex (\<lambda>phrase. py_in phrase last_section) cta_phrases
                   then score + 2 else score)
      in min 10 score)"

definition score_linkedin_formatting :: "str \<Rightarrow> rat" where
  "score_linkedin_formatting content =
     (let score = 5;
          score = (if py_in (NL @ NL) content then score + 2 else score);
          emoji_count = length (re_finditer emoji_pat content);
          score = (if 1 \<le> emoji_count \<and> emoji_count \<le> 5 then score + 3 / 2
                   else if 10 < emoji_count then score - 1 else score);
          char_count = length content;
          score = (if 500 \<le> char_count \<and> char_count \<le> 2000 then score + 3 / 2
                   else if 3000 < char_count then score - 1 else score)
      in min 10 (max 0 score))"

definition get_grade :: "rat \<Rightarrow> str" where
  "get_grade score =
     (if 9 \<le> score then lit ''A+''
      else if 17 / 2 \<le> score then lit ''A''
      else if 8 \<le> score then lit ''A-''
      else if 15 / 2 \<le> score then lit ''B+''
      else if 7 \<le> score then lit ''B''
      else if 13 / 2 \<le> score then lit ''B-''
      else if 6 \<le> score then lit ''C+''
      else if 11 / 2 \<le> score then lit ''C''
      else lit ''C-'')"

definition identify_strengths :: "(str \<times> rat) list \<Rightarrow> str list" where
  "identify_strengths scores =
     (let strengths = map (\<lambda>(dimension, score). title (replace_char 95 32 dimension))
                          (filter (\<lambda>(dimension, score). 8 \<le> score) scores)
      in if strengths \<noteq> [] then strengths else [lit ''Good baseline quality''])"

definition identify_improvements :: "(str \<times> rat) list \<Rightarrow> str list" where
  "identify_improvements scores =
     (let improvements = map (\<lambda>(dimension, score). lit ''Improve '' @ replace_char 95 32 dimension)
                             (filter (\<lambda>(dimension, score). score < 6) scores)
      in if improvements \<noteq> [] then improvements else [lit ''Minor refinements only''])"

definition score_blog_content :: "str \<Rightarrow> str \<Rightarrow> score_report" where
  "score_blog_content now content =
     (let scores = [(lit ''engagement'', score_engagement content),
                    (lit ''structure'', score_structure content),
                    (lit ''clarity'', score_clarity content),
                    (lit ''actionability'', score_actionability content),
                    (lit ''professionalism'', score_professionalism content)];
          overall = fdiv (sum_list (map snd scores)) (of_nat (length scores))
      in \<lparr>overall_score = py_round overall 1,
          dimension_scores = scores,
          grade = get_grade overall,
          character_count = None,
          strengths = Some (identify_strengths scores),
          improvements = Some (identify_improvements scores),
          timestamp = now\<rparr>)"

definition score_linkedin_content :: "str \<Rightarrow> str \<Rightarrow> score_report" where
  "score_linkedin_content now content =
     (let scores = [(lit ''hook_strength'', score_hook content),
                    (lit ''engagement_potential'', score_linkedin_engagement content),
                    (lit ''professionalism'', score_professionalism content),
                    (lit ''call_to_action'', score_cta content),
                    (lit ''formatting'', score_linkedin_formatting content)];
          overall = fdiv (sum_list (map snd scores)) (of_nat (length scores))
      in \<lparr>overall_score = py_round overall 1,
          dimension_scores = scores,
          grade = get_grade overall,
          character_count = Some (length content),
          strengths = Some (identify_strengths scores),
          improvements = Some (identify_improvements scores),
          timestamp = now\<rparr>)"

definition score_general_content :: "str \<Rightarrow> str \<Rightarrow> score_report" where
  "score_general_content now content =
     (let scores = [(lit ''clarity'', score_clarity content),
                    (lit ''engagement'', score_engagement content),
                    (lit ''professionalism'', score_professionalism content)];
          overall = fdiv (sum_list (map snd scores)) (of_nat (length scores))
      in \<lparr>overall_score = py_round overall 1,
          dimension_scores = scores,
          grade = get_grade overall,
          character_count = None,
          strengths = None,
          improvements = None,
          timestamp = now\<rparr>)"

definition score_content :: "str \<Rightarrow> str \<Rightarrow> str \<Rightarrow> score_report" where
  "score_content now content content_type =
     (if content_type = lit ''blog'' then score_blog_content now content
      else if content_type = lit ''linkedin'' then score_linkedin_content now content
      else score_general_content now content)"

section \<open>SEO Optimizer (\<open>src/utils/seo_optimizer.py\<close>)\<close>

text \<open>
  \<open>__init__\<close> sets three constants that no method changes; only
  \<open>ideal_keyword_density\<close> is read. A Python dict keeps its keys in the order of their
  first insertion, and an assignment to a key that is present replaces the value where
  the key stands: \<open>dict_set\<close>. \<open>keyword_analysis\<close> is this dict, as the list of its items.
\<close>

definition ideal_keyword_density :: "rat \<times> rat" where
  "ideal_keyword_density = (1, 5 / 2)"

fun dict_set :: "'k \<Rightarrow> 'v \<Rightarrow> ('k \<times> 'v) list \<Rightarrow> ('k \<times> 'v) list" where
  "dict_set k v [] = [(k, v)]"
| "dict_set k v ((k', v') # d) = (if k' = k then (k', v) # d else (k', v') # dict_set k v d)"

text \<open>
  The distinct elements of a list in the order of their first occurrence; the keys of the
  dict built by the loop of \<open>_analyze_keywords\<close> are \<open>first_occurrences keywords\<close>.
\<close>

abbreviation first_occurrences :: "'a list \<Rightarrow> 'a list" where
  "first_occurrences xs \<equiv> rev (remdups (rev xs))"

record keyword_stat =
  count :: nat
  density :: rat
  in_first_paragraph :: bool
  in_headings :: bool
  status :: str

record readability_info =
  sentence_count :: nat
  avg_sentence_length :: rat
  readability_level :: str
  paragraph_count :: nat

record structure_info =
  h1_count :: nat
  h2_count :: nat
  h3_count :: nat
  has_lists :: bool
  link_count :: nat
  has_proper_hierarchy :: bool

record analysis =
  word_count :: nat
  keyword_analysis :: "(str \<times> keyword_stat) list"
  readability :: readability_info
  structure' :: structure_info
  recommendations :: "str list"

record seo_report = analysis +
  seo_score :: int

definition count_words :: "str \<Rightarrow> nat" where
  "count_words content = (let words = re_finditer word_pat (lower content) in length words)"

definition check_keyword_in_headings :: "str \<Rightarrow> str \<Rightarrow> bool" where
  "check_keyword_in_headings content keyword =
     (let headings = map (group 3) (re_finditer heading_pat content)
      in list_ex (\<lambda>heading. py_in keyword (lower heading)) headings)"

definition assess_keyword_usage :: "rat \<Rightarrow> nat \<Rightarrow> str" where
  "assess_keyword_usage = (\<lambda>density count.
     if count = 0 then lit ''missing''
     else if density < fst ideal_keyword_density then lit ''too_low''
     else if snd ideal_keyword_density < density then lit ''too_high''
     else lit ''optimal'')"

definition keyword_entry :: "str \<Rightarrow> nat \<Rightarrow> str \<Rightarrow> keyword_stat" where
  \<comment> \<open>the body of the loop of \<open>_analyze_keywords\<close>: the value stored for \<open>keyword\<close>\<close>
  "keyword_entry content total_words keyword =
     (let content_lower = lower content;
          keyword_lower = lower keyword;
          count = py_count content_lower keyword_lower;
          density = (if 0 < total_words
                     then fmul (fdiv (of_nat count) (of_nat total_words)) 100 else 0);
          in_first_paragraph = py_in keyword_lower (take 500 content_lower);
          in_headings = check_keyword_in_headings content keyword_lower
      in \<lparr>count = count,
          density = py_round density 2,
          in_first_paragraph = in_first_paragraph,
          in_headings = in_headings,
          status = assess_keyword_usage density count\<rparr>)"

fun keywords_loop ::
  "str \<Rightarrow> nat \<Rightarrow> (str \<times> keyword_stat) list \<Rightarrow> str list \<Rightarrow> (str \<times> keyword_stat) list" where
  "keywords_loop content total_words keyword_data [] = keyword_data"
| "keywords_loop content total_words keyword_data (keyword # keywords) =
     keywords_loop content total_words
       (dict_set keyword (keyword_entry content total_words keyword) keyword_data) keywords"

definition analyze_keywords :: "str \<Rightarrow> str list \<Rightarrow> (str \<times> keyword_stat) list" where
  "analyze_keywords content keywords =
     (let content_lower = lower content;
          words = re_finditer word_pat content_lower;
          total_words = length words
      in keywords_loop content total_words [] keywords)"

definition analyze_readability :: "str \<Rightarrow> readability_info" where
  "analyze_readability content =
     (let sentences = sentences_of content;
          words = re_finditer word_pat content;
          avg_sentence_length =
            (if sentences \<noteq> [] then fdiv (of_nat (length words)) (of_nat (length sentences))
             else 0);
          readability_level =
            (if avg_sentence_length < 15 then lit ''easy''
             else if avg_sentence_length < 20 then lit ''moderate''
             else lit ''difficult'')
      in \<lparr>sentence_count = length sentences,
          avg_sentence_length = py_round avg_sentence_length 1,
          readability_level = readability_level,
          paragraph_count = length (py_split content (NL @ NL))\<rparr>)"

definition analyze_structure :: "str \<Rightarrow> structure_info" where
  "analyze_structure content =
     (let h1_count = length (re_finditer h1_pat content);
          h2_count = length (re_finditer h2_pat content);
          h3_count = length (re_finditer h3_pat content);
          has_lists = re_search list_pat content;
          link_count = length (re_finditer link_pat content)
      in \<lparr>h1_count = h1_count,
          h2_count = h2_count,
          h3_count = h3_count,
          has_lists = has_lists,
          link_count = link_count,
          has_proper_hierarchy = (h1_count = 1 \<and> 2 \<le> h2_count)\<rparr>)"

definition quoted :: "str \<Rightarrow> str" where
  \<comment> \<open>\<open>'{keyword}'\<close> inside the f-strings\<close>
  "quoted keyword = [39] @ keyword @ [39]"

definition keyword_recommendations :: "str \<times> keyword_stat \<Rightarrow> str list" where
  \<comment> \<open>the body of the loop over \<open>analysis["keyword_analysis"].items()\<close>\<close>
  "keyword_recommendations item =
     (case item of (keyword, data) \<Rightarrow>
        (if status data = lit ''missing''
         then [lit ''Keyword '' @ quoted keyword @ lit '' is not present. Add it naturally.'']
         else if status data = lit ''too_low''
         then [lit ''Keyword '' @ quoted keyword @
               lit '' density is too low. Use it more frequently.'']
         else if status data = lit ''too_high''
         then [lit ''Keyword '' @ quoted keyword @
               lit '' density is too high. Reduce usage to avoid keyword stuffing.'']
         else []) @
        (if \<not> in_first_paragraph data
         then [lit ''Include '' @ quoted keyword @ lit '' in the first paragraph.''] else []) @
        (if \<not> in_headings data
         then [lit ''Use '' @ quoted keyword @ lit '' in at least one heading.''] else []))"

definition generate_recommendations :: "analysis \<Rightarrow> str list \<Rightarrow> str list" where
  "generate_recommendations analysis keywords =
     (if word_count analysis < 800
      then [lit ''Content is too short. Aim for at least 800 words for better SEO.''] else []) @
     concat (map keyword_recommendations (keyword_analysis analysis)) @
     (let structure = structure' analysis
      in (if h1_count structure = 0 then [lit ''Add an H1 heading (title).'']
          else if 1 < h1_count structure then [lit ''Use only one H1 heading.''] else []) @
         (if h2_count structure < 2
          then [lit ''Add more H2 subheadings to improve structure.''] else []) @
         (if \<not> has_lists structure
          then [lit ''Consider adding bullet points or lists for better readability.'']
          else []) @
         (if link_count structure < 2
          then [lit ''Add internal and external links to improve SEO.''] else [])) @
     (if readability_level (readability analysis) = lit ''difficult''
      then [lit ''Simplify sentence structure for better readability.''] else [])"

definition keyword_penalty :: "keyword_stat \<Rightarrow> int" where
  \<comment> \<open>what one pass of the loop over \<open>analysis["keyword_analysis"].values()\<close> deducts\<close>
  "keyword_penalty keyword_data =
     (if status keyword_data = lit ''missing'' then 20
      else if status keyword_data \<noteq> lit ''optimal'' then 10 else 0) +
     (if \<not> in_first_paragraph keyword_data then 5 else 0)"

fun penalty_loop :: "int \<Rightarrow> keyword_stat list \<Rightarrow> int" where
  "penalty_loop score [] = score"
| "penalty_loop score (keyword_data # rest) =
     penalty_loop (score - keyword_penalty keyword_data) rest"

definition calculate_seo_score :: "analysis \<Rightarrow> int" where
  "calculate_seo_score analysis =
     (let score = 100;
          score = (if word_count analysis < 500 then score - 30
                   else if word_count analysis < 800 then score - 15 else score);
          score = penalty_loop score (map snd (keyword_analysis analysis));
          structure = structure' analysis;
          score = (if \<not> has_proper_hierarchy structure then score - 10 else score);
          score = (if link_count structure < 2 then score - 5 else score)
      in max 0 (min 100 score))"

definition analyze_content :: "str \<Rightarrow> str list \<Rightarrow> seo_report" where
  "analyze_content content keywords =
     (let word_count = count_words content;
          analysis = \<lparr>word_count = word_count,
                      keyword_analysis = analyze_keywords content keywords,
                      readability = analyze_readability content,
                      structure' = analyze_structure content,
                      recommendations = []\<rparr>;
          analysis = analysis\<lparr>recommendations := generate_recommendations analysis keywords\<rparr>
      in \<lparr>word_count = analysis.word_count analysis,
          keyword_analysis = analysis.keyword_analysis analysis,
          readability = analysis.readability analysis,
          structure' = analysis.structure' analysis,
          recommendations = analysis.recommendations analysis,
          seo_score = calculate_seo_score analysis\<rparr>)"

section \<open>Properties of the floating-point operations\<close>

lemma floor_rat_numeral: "\<lfloor>numeral a / numeral b :: rat\<rfloor> = numeral a div numeral b"
  using floor_divide_of_int_eq [of "numeral a" "numeral b", where ?'a = rat] by simp

lemma normalise_done: "2 ^ 52 \<le> m \<Longrightarrow> m < 2 ^ 53 \<Longrightarrow> normalise n m e = (m, e)"
  by (cases n) simp_all

lemma normalise_up:
  "0 < m \<Longrightarrow> 2 ^ 52 \<le> m * 2 ^ k \<Longrightarrow> m * 2 ^ k < 2 ^ 53 \<Longrightarrow> k \<le> n \<Longrightarrow>
   - 1074 \<le> e - int k \<Longrightarrow> normalise n m e = (m * 2 ^ k, e - int k)"
proof (induction k arbitrary: m e n)
  case 0
  then show ?case by (simp add: normalise_done)
next
  case (Suc k)
  from Suc.prems obtain n' where n: "n = Suc n'" "k \<le> n'"
    by (cases n) auto
  have "m * 2 ^ Suc k < 2 ^ 53" by (rule Suc.prems)
  moreover have "m * 2 \<le> m * 2 ^ Suc k"
    using Suc.prems(1) by (simp add: mult_le_cancel_left_pos)
  ultimately have small: "m * 2 < 2 ^ 53" by linarith
  then have m_lt: "m < 2 ^ 52" by simp
  have ih: "normalise n' (m * 2) (e - 1) = (m * 2 * 2 ^ k, e - 1 - int k)"
    using Suc.prems n by (intro Suc.IH) (simp_all add: mult.assoc)
  have "\<not> 2 ^ 53 \<le> m" using m_lt by simp
  moreover have "- 1074 < e" using Suc.prems(5) by simp
  ultimately show ?case
    using m_lt ih n by (simp add: mult.assoc)
qed

lemma to_double_small:
  assumes "0 < q" "2 ^ 52 \<le> q * 2 ^ k" "q * 2 ^ k < 2 ^ 53" "k \<le> 1074"
  shows "to_double q = of_int (round_half_even (q * 2 ^ k)) / 2 ^ k"
proof -
  have "normalise 2200 q 0 = (q * 2 ^ k, 0 - int k)"
    using assms by (intro normalise_up) simp_all
  moreover have "\<bar>q\<bar> = q" "sgn q = 1" "q \<noteq> 0"
    using assms(1) by simp_all
  ultimately have "to_double q = of_int (round_half_even (q * 2 ^ k)) * pow2 (- int k)"
    by (simp add: to_double_def)
  then show ?thesis
    by (simp add: pow2_def)
qed

lemma to_double_0: "to_double 0 = 0"
  by (simp add: to_double_def)

lemma round_half_even_near:
  assumes "\<bar>z - of_int n\<bar> < 1 / 2"
  shows "round_half_even z = n"
proof (cases "of_int n \<le> z")
  case True
  with assms have fl: "\<lfloor>z\<rfloor> = n"
    by (intro floor_unique) linarith+
  from True assms have "z - of_int n < 1 / 2" by linarith
  with fl show ?thesis by (simp add: round_half_even_def)
next
  case False
  from False assms have lo: "of_int n - 1 \<le> z" and hi: "z < of_int n"
    by linarith+
  have fl: "\<lfloor>z\<rfloor> = n - 1"
    using lo hi by (intro floor_unique) simp_all
  from False assms have "1 / 2 < z - (of_int n - 1)" by linarith
  then have "1 / 2 < z - of_int (n - 1)" by simp
  with fl show ?thesis by (simp add: round_half_even_def Let_def)
qed

lemma round_half_even_error: "\<bar>of_int (round_half_even y) - y\<bar> \<le> 1 / 2"
proof -
  have "of_int \<lfloor>y\<rfloor> \<le> y" "y < of_int \<lfloor>y\<rfloor> + 1"
    by linarith+
  then show ?thesis
    by (auto simp: round_half_even_def Let_def)
qed

lemma binade_ex:
  assumes "1 / 32 \<le> q" "q < 16"
  shows "\<exists>k. 49 \<le> k \<and> k \<le> 57 \<and> 2 ^ 52 \<le> q * 2 ^ k \<and> q * 2 ^ k < (2::rat) ^ 53"
proof -
  consider "q < 1 / 16" | "1 / 16 \<le> q" "q < 1 / 8" | "1 / 8 \<le> q" "q < 1 / 4"
    | "1 / 4 \<le> q" "q < 1 / 2" | "1 / 2 \<le> q" "q < 1" | "1 \<le> q" "q < 2"
    | "2 \<le> q" "q < 4" | "4 \<le> q" "q < 8" | "8 \<le> q"
    by linarith
  then show ?thesis
  proof cases
    case 1 with assms show ?thesis by (intro exI [of _ 57]) simp
  next
    case 2 then show ?thesis by (intro exI [of _ 56]) simp
  next
    case 3 then show ?thesis by (intro exI [of _ 55]) simp
  next
    case 4 then show ?thesis by (intro exI [of _ 54]) simp
  next
    case 5 then show ?thesis by (intro exI [of _ 53]) simp
  next
    case 6 then show ?thesis by (intro exI [of _ 52]) simp
  next
    case 7 then show ?thesis by (intro exI [of _ 51]) simp
  next
    case 8 then show ?thesis by (intro exI [of _ 50]) simp
  next
    case 9 with assms show ?thesis by (intro exI [of _ 49]) simp
  qed
qed

lemma to_double_error:
  assumes "1 / 32 \<le> q" "q < 16"
  shows "\<bar>to_double q - q\<bar> \<le> 1 / 2 ^ 50"
proof -
  from binade_ex [OF assms] obtain k where
    k: "49 \<le> k" "k \<le> 57" "2 ^ 52 \<le> q * 2 ^ k" "q * 2 ^ k < 2 ^ 53"
    by blast
  define R where "R = round_half_even (q * 2 ^ k)"
  have td: "to_double q = of_int R / 2 ^ k"
    unfolding R_def using assms k by (intro to_double_small) simp_all
  have "to_double q - q = (of_int R - q * 2 ^ k) / 2 ^ k"
    by (simp add: td field_simps)
  then have "\<bar>to_double q - q\<bar> = \<bar>of_int R - q * 2 ^ k\<bar> / 2 ^ k"
    by (simp add: abs_divide)
  also have "\<dots> \<le> (1 / 2) / 2 ^ k"
    unfolding R_def by (intro divide_right_mono round_half_even_error) simp
  also have "\<dots> \<le> (1 / 2) / 2 ^ 49"
    using k(1) by (intro divide_left_mono power_increasing) simp_all
  finally show ?thesis by simp
qed

lemma thresholds_exact:
  "to_double 9 = 9" "to_double (17 / 2) = 17 / 2" "to_double 8 = 8" "to_double (15 / 2) = 15 / 2"
  "to_double 7 = 7" "to_double (13 / 2) = 13 / 2" "to_double 6 = 6" "to_double (11 / 2) = 11 / 2"
  by (simp_all add: to_double_small [where k = 49] to_double_small [where k = 50]
        round_half_even_def)

lemma threshold_to_double:
  assumes x: "30 * x \<in> \<int>" "0 \<le> x" "x \<le> 10"
    and t: "30 * t \<in> \<int>" "0 < t" "to_double t = t"
  shows "t \<le> to_double x \<longleftrightarrow> t \<le> x"
proof -
  from x(1) obtain a :: int where a: "30 * x = of_int a" by (auto elim: Ints_cases)
  from t(1) obtain b :: int where b: "30 * t = of_int b" by (auto elim: Ints_cases)
  consider "x = t" | "x < t" | "t < x" by linarith
  then show ?thesis
  proof cases
    case 1
    then show ?thesis using t(3) by simp
  next
    case 2
    then have "(of_int a :: rat) < of_int b" using a b by linarith
    then have "a + 1 \<le> b" by simp
    then have "(of_int a :: rat) + 1 \<le> of_int b" by (metis of_int_1 of_int_add of_int_le_iff)
    then have gap: "x + 1 / 30 \<le> t" using a b by linarith
    show ?thesis
    proof (cases "x = 0")
      case True
      then show ?thesis using t(2) by (simp add: to_double_0)
    next
      case False
      with x(2) have "0 < (of_int a :: rat)" using a by linarith
      then have "1 \<le> a" by simp
      then have "(1 :: rat) \<le> of_int a" by (metis of_int_1 of_int_le_iff)
      then have "1 / 32 \<le> x" using a by linarith
      then have "\<bar>to_double x - x\<bar> \<le> 1 / 2 ^ 50"
        using x(3) by (intro to_double_error) simp_all
      moreover have "(1::rat) / 2 ^ 50 < 1 / 30" by simp
      ultimately have "to_double x < t" using gap by linarith
      with 2 show ?thesis by simp
    qed
  next
    case 3
    then have "(of_int b :: rat) < of_int a" using a b by linarith
    then have "b + 1 \<le> a" by simp
    then have "(of_int b :: rat) + 1 \<le> of_int a" by (metis of_int_1 of_int_add of_int_le_iff)
    then have gap: "t + 1 / 30 \<le> x" using a b by linarith
    then have "1 / 32 \<le> x" using t(2) by simp
    then have "\<bar>to_double x - x\<bar> \<le> 1 / 2 ^ 50"
      using x(3) by (intro to_double_error) simp_all
    moreover have "(1::rat) / 2 ^ 50 < 1 / 30" by simp
    ultimately have "t < to_double x" using gap by linarith
    with 3 show ?thesis by simp
  qed
qed

lemma get_grade_to_double:
  assumes "30 * x \<in> \<int>" "0 \<le> x" "x \<le> 10"
  shows "get_grade (to_double x) = get_grade x"
proof -
  have h: "(t \<le> to_double x) = (t \<le> x)" if "30 * t \<in> \<int>" "0 < t" "to_double t = t" for t
    using threshold_to_double [OF assms that] .
  have "(9 \<le> to_double x) = (9 \<le> x)" "(17 / 2 \<le> to_double x) = (17 / 2 \<le> x)"
    "(8 \<le> to_double x) = (8 \<le> x)" "(15 / 2 \<le> to_double x) = (15 / 2 \<le> x)"
    "(7 \<le> to_double x) = (7 \<le> x)" "(13 / 2 \<le> to_double x) = (13 / 2 \<le> x)"
    "(6 \<le> to_double x) = (6 \<le> x)" "(11 / 2 \<le> to_double x) = (11 / 2 \<le> x)"
    by (rule h; simp add: thresholds_exact)+
  then show ?thesis
    unfolding get_grade_def by (simp only:)
qed

lemma round_half_even_stable:
  assumes "3 * y \<in> \<int>" "\<bar>y' - y\<bar> < 1 / 6"
  shows "round_half_even y' = round_half_even y"
proof -
  from assms(1) obtain N :: int where N: "3 * y = of_int N" by (auto elim: Ints_cases)
  define n where "n = N div 3"
  define j where "j = N mod 3"
  have Nn: "N = 3 * n + j" by (simp add: n_def j_def)
  have y: "y = of_int n + of_int j / 3"
    using N by (simp add: Nn)
  have "j = 0 \<or> j = 1 \<or> j = 2"
    unfolding j_def by presburger
  then consider "j = 0 \<or> j = 1" | "j = 2" by blast
  then show ?thesis
  proof cases
    case 1
    then have "y = of_int n \<or> y = of_int n + 1 / 3"
      using y by auto
    then have "\<bar>y - of_int n\<bar> < 1 / 2" "\<bar>y' - of_int n\<bar> < 1 / 2"
      using assms(2) by linarith+
    then show ?thesis by (simp add: round_half_even_near)
  next
    case 2
    then have "y = of_int n + 2 / 3"
      using y by simp
    then have "\<bar>y - (of_int n + 1)\<bar> < 1 / 2" "\<bar>y' - (of_int n + 1)\<bar> < 1 / 2"
      using assms(2) by linarith+
    then have "\<bar>y - of_int (n + 1)\<bar> < 1 / 2" "\<bar>y' - of_int (n + 1)\<bar> < 1 / 2"
      by simp_all
    then show ?thesis by (simp only: round_half_even_near)
  qed
qed

lemma py_round_to_double:
  assumes "30 * x \<in> \<int>" "0 \<le> x" "x \<le> 10"
  shows "py_round (to_double x) 1 = py_round x 1"
proof (cases "x = 0")
  case True
  then show ?thesis by (simp add: to_double_0)
next
  case False
  from assms(1) obtain a :: int where a: "30 * x = of_int a" by (auto elim: Ints_cases)
  from False assms(2) have "0 < (of_int a :: rat)" using a by linarith
  then have "1 \<le> a" by simp
  then have "(1 :: rat) \<le> of_int a" by (metis of_int_1 of_int_le_iff)
  then have "1 / 32 \<le> x" using a by linarith
  then have "\<bar>to_double x - x\<bar> \<le> 1 / 2 ^ 50"
    using assms(3) by (intro to_double_error) simp_all
  moreover have "(1::rat) / 2 ^ 50 < 1 / 60" by simp
  ultimately have close: "\<bar>to_double x * 10 - x * 10\<bar> < 1 / 6" by linarith
  have "3 * (x * 10) \<in> \<int>" using assms(1) by (simp add: mult.commute mult.left_commute)
  then have "round_half_even (to_double x * 10) = round_half_even (x * 10)"
    using close by (rule round_half_even_stable)
  then show ?thesis by (simp add: py_round_def)
qed

lemma round_half_even_of_int: "round_half_even (of_int a) = a"
  by (rule round_half_even_near) simp

lemma threshold_decimal:
  assumes x: "6 * x \<in> \<int>" and t: "2 * t \<in> \<int>"
  shows "t \<le> of_int (round_half_even (x * 10)) / 10 \<longleftrightarrow> t \<le> x"
proof -
  from x obtain a :: int where a: "6 * x = of_int a" by (auto elim: Ints_cases)
  from t obtain b :: int where b: "2 * t = of_int b" by (auto elim: Ints_cases)
  define D where "D = round_half_even (x * 10)"
  have "\<bar>of_int D - x * 10\<bar> \<le> 1 / 2"
    unfolding D_def by (rule round_half_even_error)
  then have lo: "x * 10 - 1 / 2 \<le> of_int D" and hi: "of_int D \<le> x * 10 + 1 / 2"
    by linarith+
  have b5: "(of_int (5 * b) :: rat) = 10 * t"
    using b by simp
  have a3: "(of_int (3 * b) :: rat) = 6 * t"
    using b by simp
  show ?thesis
  proof (cases "t \<le> x")
    case True
    have "(of_int (5 * b - 1) :: rat) = 10 * t - 1"
      using b5 by simp
    then have "of_int (5 * b - 1) < (of_int D :: rat)"
      using lo True by linarith
    then have "5 * b - 1 < D" by (simp only: of_int_less_iff)
    then have "5 * b \<le> D" by simp
    then have "of_int (5 * b) \<le> (of_int D :: rat)" by (simp only: of_int_le_iff)
    then have "t \<le> of_int D / 10" using b5 by linarith
    with True show ?thesis by (simp add: D_def)
  next
    case False
    then have "(of_int a :: rat) < of_int (3 * b)" using a a3 by linarith
    then have "a < 3 * b" by (simp only: of_int_less_iff)
    then have "a + 1 \<le> 3 * b" by simp
    then have "of_int (a + 1) \<le> (of_int (3 * b) :: rat)" by (simp only: of_int_le_iff)
    moreover have "(of_int (a + 1) :: rat) = 6 * x + 1" using a by simp
    ultimately have "x * 10 \<le> t * 10 - 5 / 3" using a3 by linarith
    then have "of_int D / 10 < t" using hi by linarith
    with False show ?thesis by (simp add: D_def)
  qed
qed

lemma grade_of_decimal:
  assumes "10 * x \<in> \<int> \<or> 6 * x \<in> \<int>"
  shows "get_grade (of_int (round_half_even (x * 10)) / 10) = get_grade x"
  using assms
proof
  assume "10 * x \<in> \<int>"
  then obtain a :: int where a: "10 * x = of_int a" by (auto elim: Ints_cases)
  then have xa: "x * 10 = of_int a" by (simp add: mult.commute)
  have "round_half_even (x * 10) = a"
    unfolding xa by (rule round_half_even_of_int)
  then have "of_int (round_half_even (x * 10)) / 10 = x"
    using xa by simp
  then show ?thesis by simp
next
  assume x: "6 * x \<in> \<int>"
  define r where "r = (of_int (round_half_even (x * 10)) / 10 :: rat)"
  have h: "(t \<le> r) = (t \<le> x)" if "2 * t \<in> \<int>" for t
    unfolding r_def using threshold_decimal [OF x that] .
  have "(9 \<le> r) = (9 \<le> x)" "(17 / 2 \<le> r) = (17 / 2 \<le> x)"
    "(8 \<le> r) = (8 \<le> x)" "(15 / 2 \<le> r) = (15 / 2 \<le> x)"
    "(7 \<le> r) = (7 \<le> x)" "(13 / 2 \<le> r) = (13 / 2 \<le> x)"
    "(6 \<le> r) = (6 \<le> x)" "(11 / 2 \<le> r) = (11 / 2 \<le> x)"
    by (rule h; simp)+
  then have "get_grade r = get_grade x"
    unfolding get_grade_def by (simp only:)
  then show ?thesis by (simp only: r_def)
qed

lemma round_decimal_range:
  assumes "0 \<le> x" "x \<le> 10"
  shows "0 \<le> round_half_even (x * 10)" "round_half_even (x * 10) \<le> 100"
proof -
  define D where "D = round_half_even (x * 10)"
  have "\<bar>of_int D - x * 10\<bar> \<le> 1 / 2"
    unfolding D_def by (rule round_half_even_error)
  then have lo: "x * 10 - 1 / 2 \<le> of_int D" and hi: "of_int D \<le> x * 10 + 1 / 2"
    by linarith+
  have "(of_int (- 1) :: rat) = - 1" "(of_int 101 :: rat) = 101" by simp_all
  then have "of_int (- 1) < (of_int D :: rat)" "(of_int D :: rat) < of_int 101"
    using lo hi assms by linarith+
  then have "- 1 < D" "D < 101" by (simp_all only: of_int_less_iff)
  then show "0 \<le> round_half_even (x * 10)" "round_half_even (x * 10) \<le> 100"
    by (simp_all add: D_def)
qed

lemma grade_consistent:
  assumes grid: "10 * x \<in> \<int> \<or> 6 * x \<in> \<int>" and range: "0 \<le> x" "x \<le> 10"
  shows "get_grade (to_double x) = get_grade (py_round (to_double x) 1)"
proof -
  have x30: "30 * x \<in> \<int>"
    using grid
  proof
    assume "10 * x \<in> \<int>"
    with Ints_numeral have "3 * (10 * x) \<in> \<int>" by (rule Ints_mult)
    then show ?thesis by simp
  next
    assume "6 * x \<in> \<int>"
    with Ints_numeral have "5 * (6 * x) \<in> \<int>" by (rule Ints_mult)
    then show ?thesis by simp
  qed
  define D where "D = round_half_even (x * 10)"
  have D: "0 \<le> D" "D \<le> 100"
    unfolding D_def using range by (rule round_decimal_range)+
  have "30 * (of_int D / 10 :: rat) = of_int (3 * D)" by simp
  then have d30: "30 * (of_int D / 10 :: rat) \<in> \<int>" by (simp only: Ints_of_int)
  have drange: "0 \<le> (of_int D / 10 :: rat)" "(of_int D / 10 :: rat) \<le> 10"
    using D by simp_all
  have "py_round (to_double x) 1 = py_round x 1"
    using x30 range by (rule py_round_to_double)
  also have "\<dots> = to_double (of_int D / 10)"
    by (simp add: py_round_def D_def)
  finally have "get_grade (py_round (to_double x) 1) = get_grade (of_int D / 10)"
    using get_grade_to_double [OF d30 drange] by simp
  also have "\<dots> = get_grade x"
    unfolding D_def using grid by (rule grade_of_decimal)
  also have "\<dots> = get_grade (to_double x)"
    using get_grade_to_double [OF x30 range] by simp
  finally show ?thesis by simp
qed

section \<open>Every dimension score is a multiple of 0.5 in [0, 10]\<close>

lemma half_pos_add:
  "2 * s \<in> \<int> \<and> 0 \<le> s \<Longrightarrow> 2 * d \<in> \<int> \<and> 0 \<le> d \<Longrightarrow> 2 * (s + d) \<in> \<int> \<and> 0 \<le> s + (d::rat)"
  by (simp add: distrib_left)

lemma half_pos_if:
  "2 * x \<in> \<int> \<and> 0 \<le> x \<Longrightarrow> 2 * y \<in> \<int> \<and> 0 \<le> y \<Longrightarrow>
   2 * (if b then x else y) \<in> \<int> \<and> 0 \<le> (if b then x else (y::rat))"
  by simp

lemma half_pos_num:
  "2 * (numeral n :: rat) \<in> \<int> \<and> 0 \<le> (numeral n :: rat)"
  "2 * (3 / 2 :: rat) \<in> \<int> \<and> 0 \<le> (3 / 2 :: rat)"
  "2 * (1 / 2 :: rat) \<in> \<int> \<and> 0 \<le> (1 / 2 :: rat)"
  "2 * (1 :: rat) \<in> \<int> \<and> 0 \<le> (1 :: rat)"
  by simp_all

lemma half_pos_min_count:
  "2 * min (numeral m) (of_nat n * (1 / 2) :: rat) \<in> \<int> \<and>
   0 \<le> min (numeral m) (of_nat n * (1 / 2) :: rat)"
  "2 * min (numeral m) (of_nat n * (3 / 2) :: rat) \<in> \<int> \<and>
   0 \<le> min (numeral m) (of_nat n * (3 / 2) :: rat)"
proof -
  have "2 * (of_nat n * (1 / 2) :: rat) = of_nat n" "2 * (of_nat n * (3 / 2) :: rat) = of_nat (3 * n)"
    by simp_all
  then have "2 * (of_nat n * (1 / 2) :: rat) \<in> \<int>" "2 * (of_nat n * (3 / 2) :: rat) \<in> \<int>"
    by (simp_all only: Ints_of_nat)
  then show
    "2 * min (numeral m) (of_nat n * (1 / 2) :: rat) \<in> \<int> \<and>
     0 \<le> min (numeral m) (of_nat n * (1 / 2) :: rat)"
    "2 * min (numeral m) (of_nat n * (3 / 2) :: rat) \<in> \<int> \<and>
     0 \<le> min (numeral m) (of_nat n * (3 / 2) :: rat)"
    by (simp_all add: min_def)
qed

lemma half_pos_final:
  "2 * s \<in> \<int> \<and> 0 \<le> s \<Longrightarrow> 2 * min 10 s \<in> \<int> \<and> 0 \<le> min 10 s \<and> min 10 s \<le> (10::rat)"
  by (simp add: min_def)

lemmas half_pos = half_pos_final half_pos_add half_pos_if half_pos_num half_pos_min_count

lemma half_add: "2 * s \<in> \<int> \<Longrightarrow> 2 * d \<in> \<int> \<Longrightarrow> 2 * (s + (d::rat)) \<in> \<int>"
  by (simp add: distrib_left)

lemma half_diff: "2 * s \<in> \<int> \<Longrightarrow> 2 * d \<in> \<int> \<Longrightarrow> 2 * (s - (d::rat)) \<in> \<int>"
  by (simp add: right_diff_distrib)

lemma half_if: "2 * x \<in> \<int> \<Longrightarrow> 2 * y \<in> \<int> \<Longrightarrow> 2 * (if b then x else (y::rat)) \<in> \<int>"
  by simp

lemma half_num:
  "2 * (numeral n :: rat) \<in> \<int>" "2 * (3 / 2 :: rat) \<in> \<int>" "2 * (1 :: rat) \<in> \<int>"
  by simp_all

lemma half_final:
  "2 * s \<in> \<int> \<Longrightarrow>
   2 * min 10 (max 0 s) \<in> \<int> \<and> 0 \<le> min 10 (max 0 s) \<and> min 10 (max 0 s) \<le> (10::rat)"
  by (simp add: min_def max_def)

lemmas half = half_final half_add half_diff half_if half_num

lemma score_engagement_grid:
  "2 * score_engagement c \<in> \<int> \<and> 0 \<le> score_engagement c \<and> score_engagement c \<le> 10"
  unfolding score_engagement_def Let_def by (intro half_pos)
lemma score_structure_grid:
  "2 * score_structure c \<in> \<int> \<and> 0 \<le> score_structure c \<and> score_structure c \<le> 10"
  unfolding score_structure_def Let_def by (intro half_pos)
lemma score_actionability_grid:
  "2 * score_actionability c \<in> \<int> \<and> 0 \<le> score_actionability c \<and> score_actionability c \<le> 10"
  unfolding score_actionability_def Let_def by (intro half_pos)
lemma score_hook_grid:
  "2 * score_hook c \<in> \<int> \<and> 0 \<le> score_hook c \<and> score_hook c \<le> 10"
  unfolding score_hook_def Let_def by (intro half_pos)
lemma score_linkedin_engagement_grid:
  "2 * score_linkedin_engagement c \<in> \<int> \<and> 0 \<le> score_linkedin_engagement c \<and> score_linkedin_engagement c \<le> 10"
  unfolding score_linkedin_engagement_def Let_def by (intro half_pos)
lemma score_cta_grid:
  "2 * score_cta c \<in> \<int> \<and> 0 \<le> score_cta c \<and> score_cta c \<le> 10"
  unfolding score_cta_def Let_def by (intro half_pos)
lemma score_clarity_grid:
  "2 * score_clarity c \<in> \<int> \<and> 0 \<le> score_clarity c \<and> score_clarity c \<le> 10"
  unfolding score_clarity_def Let_def by (intro half)
lemma score_professionalism_grid:
  "2 * score_professionalism c \<in> \<int> \<and> 0 \<le> score_professionalism c \<and> score_professionalism c \<le> 10"
  unfolding score_professionalism_def Let_def by (intro half)
lemma score_linkedin_formatting_grid:
  "2 * score_linkedin_formatting c \<in> \<int> \<and> 0 \<le> score_linkedin_formatting c \<and> score_linkedin_formatting c \<le> 10"
  unfolding score_linkedin_formatting_def Let_def by (intro half)
section \<open>The report of the Content Scorer\<close>

lemma grid30:
  assumes "10 * x \<in> \<int> \<or> 6 * x \<in> \<int>"
  shows "30 * (x::rat) \<in> \<int>"
  using assms
proof
  assume "10 * x \<in> \<int>"
  with Ints_numeral have "3 * (10 * x) \<in> \<int>" by (rule Ints_mult)
  then show ?thesis by simp
next
  assume "6 * x \<in> \<int>"
  with Ints_numeral have "5 * (6 * x) \<in> \<int>" by (rule Ints_mult)
  then show ?thesis by simp
qed

lemma mean5_grid:
  assumes "2 * a \<in> \<int> \<and> 0 \<le> a \<and> a \<le> 10" "2 * b \<in> \<int> \<and> 0 \<le> b \<and> b \<le> 10"
    "2 * c \<in> \<int> \<and> 0 \<le> c \<and> c \<le> 10" "2 * d \<in> \<int> \<and> 0 \<le> d \<and> d \<le> 10"
    "2 * e \<in> \<int> \<and> 0 \<le> e \<and> e \<le> (10::rat)"
  shows "10 * ((a + (b + (c + (d + e)))) / 5) \<in> \<int> \<or> 6 * ((a + (b + (c + (d + e)))) / 5) \<in> \<int>"
    "0 \<le> (a + (b + (c + (d + e)))) / 5" "(a + (b + (c + (d + e)))) / 5 \<le> 10"
proof -
  have "2 * a + 2 * b + 2 * c + 2 * d + 2 * e \<in> \<int>"
    using assms by (intro Ints_add) simp_all
  moreover have "10 * ((a + (b + (c + (d + e)))) / 5) = 2 * a + 2 * b + 2 * c + 2 * d + 2 * e"
    by simp
  ultimately have "10 * ((a + (b + (c + (d + e)))) / 5) \<in> \<int>" by (simp only:)
  then show "10 * ((a + (b + (c + (d + e)))) / 5) \<in> \<int> \<or>
             6 * ((a + (b + (c + (d + e)))) / 5) \<in> \<int>" ..
  show "0 \<le> (a + (b + (c + (d + e)))) / 5" "(a + (b + (c + (d + e)))) / 5 \<le> 10"
    using assms by simp_all
qed

lemma mean3_grid:
  assumes "2 * a \<in> \<int> \<and> 0 \<le> a \<and> a \<le> 10" "2 * b \<in> \<int> \<and> 0 \<le> b \<and> b \<le> 10"
    "2 * c \<in> \<int> \<and> 0 \<le> c \<and> c \<le> (10::rat)"
  shows "10 * ((a + (b + c)) / 3) \<in> \<int> \<or> 6 * ((a + (b + c)) / 3) \<in> \<int>"
    "0 \<le> (a + (b + c)) / 3" "(a + (b + c)) / 3 \<le> 10"
proof -
  have "2 * a + 2 * b + 2 * c \<in> \<int>"
    using assms by (intro Ints_add) simp_all
  moreover have "6 * ((a + (b + c)) / 3) = 2 * a + 2 * b + 2 * c"
    by simp
  ultimately have "6 * ((a + (b + c)) / 3) \<in> \<int>" by (simp only:)
  then show "10 * ((a + (b + c)) / 3) \<in> \<int> \<or> 6 * ((a + (b + c)) / 3) \<in> \<int>" ..
  show "0 \<le> (a + (b + c)) / 3" "(a + (b + c)) / 3 \<le> 10"
    using assms by simp_all
qed

lemma mean_report:
  assumes "10 * x \<in> \<int> \<or> 6 * x \<in> \<int>" "0 \<le> x" "x \<le> 10"
  shows "py_round (to_double x) 1 = py_round x 1"
    and "get_grade (to_double x) = get_grade (py_round (to_double x) 1)"
proof -
  from assms(1) have "30 * x \<in> \<int>" by (rule grid30)
  then show "py_round (to_double x) 1 = py_round x 1"
    using assms(2,3) by (rule py_round_to_double)
  show "get_grade (to_double x) = get_grade (py_round (to_double x) 1)"
    using assms by (rule grade_consistent)
qed

lemmas blog_mean = mean5_grid [OF score_engagement_grid score_structure_grid score_clarity_grid
  score_actionability_grid score_professionalism_grid]

lemmas linkedin_mean = mean5_grid [OF score_hook_grid score_linkedin_engagement_grid
  score_professionalism_grid score_cta_grid score_linkedin_formatting_grid]

lemmas general_mean = mean3_grid [OF score_clarity_grid score_engagement_grid
  score_professionalism_grid]

lemma blog_report:
  "length (dimension_scores (score_blog_content now c)) = 5"
  "map snd (dimension_scores (score_blog_content now c)) =
     [score_engagement c, score_structure c, score_clarity c, score_actionability c,
      score_professionalism c]"
  "overall_score (score_blog_content now c) =
     py_round (to_double ((score_engagement c + (score_structure c + (score_clarity c +
       (score_actionability c + score_professionalism c)))) / 5)) 1"
  "grade (score_blog_content now c) =
     get_grade (to_double ((score_engagement c + (score_structure c + (score_clarity c +
       (score_actionability c + score_professionalism c)))) / 5))"
  by (simp_all add: score_blog_content_def Let_def fdiv_def del: One_nat_def)

lemma linkedin_report:
  "length (dimension_scores (score_linkedin_content now c)) = 5"
  "map snd (dimension_scores (score_linkedin_content now c)) =
     [score_hook c, score_linkedin_engagement c, score_professionalism c, score_cta c,
      score_linkedin_formatting c]"
  "overall_score (score_linkedin_content now c) =
     py_round (to_double ((score_hook c + (score_linkedin_engagement c + (score_professionalism c +
       (score_cta c + score_linkedin_formatting c)))) / 5)) 1"
  "grade (score_linkedin_content now c) =
     get_grade (to_double ((score_hook c + (score_linkedin_engagement c + (score_professionalism c +
       (score_cta c + score_linkedin_formatting c)))) / 5))"
  by (simp_all add: score_linkedin_content_def Let_def fdiv_def del: One_nat_def)

lemma general_report:
  "length (dimension_scores (score_general_content now c)) = 3"
  "map snd (dimension_scores (score_general_content now c)) =
     [score_clarity c, score_engagement c, score_professionalism c]"
  "overall_score (score_general_content now c) =
     py_round (to_double ((score_clarity c + (score_engagement c + score_professionalism c)) / 3)) 1"
  "grade (score_general_content now c) =
     get_grade (to_double ((score_clarity c + (score_engagement c + score_professionalism c)) / 3))"
  by (simp_all add: score_general_content_def Let_def fdiv_def del: One_nat_def)

lemma score_content_cases:
  obtains "score_content now c ct = score_blog_content now c"
  | "score_content now c ct = score_linkedin_content now c"
  | "score_content now c ct = score_general_content now c"
  unfolding score_content_def by (cases "ct = lit ''blog''"; cases "ct = lit ''linkedin''") simp_all

text \<open>
  Claim C2. For every text and every content type, \<open>overall_score\<close> is the arithmetic mean
  of the values of \<open>dimension_scores\<close>, rounded to one decimal. The first equation is the
  computation of the code (the float quotient, then \<open>round\<close>); the second says that the
  rounding of the float quotient is the rounding of the exact mean.
\<close>

theorem overall_score_is_rounded_mean:
  "let r = score_content now c ct; vals = map snd (dimension_scores r)
   in overall_score r = py_round (fdiv (sum_list vals) (of_nat (length vals))) 1 \<and>
      overall_score r = py_round (sum_list vals / of_nat (length vals)) 1"
proof (cases rule: score_content_cases [of now c ct])
  case 1
  then show ?thesis
    by (simp add: Let_def blog_report fdiv_def mean_report(1) [OF blog_mean] del: One_nat_def)
next
  case 2
  then show ?thesis
    by (simp add: Let_def linkedin_report fdiv_def mean_report(1) [OF linkedin_mean] del: One_nat_def)
next
  case 3
  then show ?thesis
    by (simp add: Let_def general_report fdiv_def mean_report(1) [OF general_mean] del: One_nat_def)
qed

text \<open>
  Claim C3. The code grades the unrounded mean, the report shows the rounded one. On the
  values the mean can take (sums of multiples of 0.5, divided by 5 or by 3) the two give
  the same grade, so for every text and content type the \<open>grade\<close> field is the threshold
  table, written out below, applied to the \<open>overall_score\<close> field. At the boundary, 8.0 is
  graded A- and the float 7.99 is graded B+.
\<close>

theorem grade_follows_overall_score:
  "(let s = overall_score (score_content now c ct)
    in grade (score_content now c ct) =
         (if 9 \<le> s then lit ''A+''
          else if 17 / 2 \<le> s then lit ''A''
          else if 8 \<le> s then lit ''A-''
          else if 15 / 2 \<le> s then lit ''B+''
          else if 7 \<le> s then lit ''B''
          else if 13 / 2 \<le> s then lit ''B-''
          else if 6 \<le> s then lit ''C+''
          else if 11 / 2 \<le> s then lit ''C''
          else lit ''C-'')) \<and>
   grade (score_content now c ct) = get_grade (overall_score (score_content now c ct)) \<and>
   get_grade 8 = lit ''A-'' \<and> get_grade (to_double (799 / 100)) = lit ''B+''"
proof -
  have g: "grade (score_content now c ct) = get_grade (overall_score (score_content now c ct))"
  proof (cases rule: score_content_cases [of now c ct])
    case 1
    then show ?thesis
      by (simp only: blog_report mean_report(2) [OF blog_mean])
  next
    case 2
    then show ?thesis
      by (simp only: linkedin_report mean_report(2) [OF linkedin_mean])
  next
    case 3
    then show ?thesis
      by (simp only: general_report mean_report(2) [OF general_mean])
  qed
  have table: "get_grade s =
         (if 9 \<le> s then lit ''A+''
          else if 17 / 2 \<le> s then lit ''A''
          else if 8 \<le> s then lit ''A-''
          else if 15 / 2 \<le> s then lit ''B+''
          else if 7 \<le> s then lit ''B''
          else if 13 / 2 \<le> s then lit ''B-''
          else if 6 \<le> s then lit ''C+''
          else if 11 / 2 \<le> s then lit ''C''
          else lit ''C-'')" for s
    by (simp only: get_grade_def)
  have "get_grade 8 = lit ''A-''"
    by (simp add: get_grade_def)
  moreover have "get_grade (to_double (799 / 100)) = lit ''B+''"
    by (simp add: to_double_small [where k = 50] round_half_even_def floor_rat_numeral
        get_grade_def)
  ultimately show ?thesis
    unfolding Let_def using g table [of "overall_score (score_content now c ct)"]
    by (simp only: simp_thms)
qed

text \<open>
  Claim C1, as amended. The selector of the short-form variant is the string
  \<open>linkedin\<close>: with it the report has the five short-form keys, in this order. Every
  selector other than \<open>blog\<close> and \<open>linkedin\<close>, \<open>short_form\<close> included, takes the
  general branch, whose report has three keys.
\<close>

theorem dimension_keys_by_selector:
  "map fst (dimension_scores (score_content now c ct)) =
     (if ct = lit ''blog''
      then [lit ''engagement'', lit ''structure'', lit ''clarity'', lit ''actionability'',
            lit ''professionalism'']
      else if ct = lit ''linkedin''
      then [lit ''hook_strength'', lit ''engagement_potential'', lit ''professionalism'',
            lit ''call_to_action'', lit ''formatting'']
      else [lit ''clarity'', lit ''engagement'', lit ''professionalism''])"
  by (simp add: score_content_def score_blog_content_def score_linkedin_content_def
      score_general_content_def Let_def)

text \<open>
  Claim C1 as stated fails: with the selector \<open>short_form\<close> the report of the empty text
  has three keys, and \<open>hook_strength\<close> is not among them.
\<close>

theorem short_form_selector_counterexample:
  "length (dimension_scores (score_content [] [] (lit ''short_form''))) = 3 \<and>
   lit ''hook_strength'' \<notin> fst ` set (dimension_scores (score_content [] [] (lit ''short_form'')))"
  by (simp add: score_content_def score_general_content_def Let_def)

section \<open>Ranges and determinism\<close>

lemma calculate_seo_score_range:
  "0 \<le> calculate_seo_score a \<and> calculate_seo_score a \<le> 100"
  unfolding calculate_seo_score_def Let_def by simp

lemma seo_score_analyze_content:
  "\<exists>a. seo_score (analyze_content c keywords) = calculate_seo_score a"
  unfolding analyze_content_def Let_def by (simp only: seo_report.simps) blast

text \<open>
  Claim C6. Every dimension score of every report lies in [0, 10], and the score of the
  SEO Optimizer lies in [0, 100].
\<close>

theorem scores_in_range:
  "list_all (\<lambda>(dimension, score). 0 \<le> score \<and> score \<le> 10)
     (dimension_scores (score_content now c ct)) \<and>
   0 \<le> seo_score (analyze_content c' keywords) \<and>
   seo_score (analyze_content c' keywords) \<le> 100"
proof -
  have "list_all (\<lambda>(dimension, score). 0 \<le> score \<and> score \<le> 10)
          (dimension_scores (score_content now c ct))"
  proof (cases rule: score_content_cases [of now c ct])
    case 1
    then show ?thesis
      using score_engagement_grid [of c] score_structure_grid [of c] score_clarity_grid [of c]
        score_actionability_grid [of c] score_professionalism_grid [of c]
      by (simp add: score_blog_content_def Let_def)
  next
    case 2
    then show ?thesis
      using score_hook_grid [of c] score_linkedin_engagement_grid [of c]
        score_professionalism_grid [of c] score_cta_grid [of c]
        score_linkedin_formatting_grid [of c]
      by (simp add: score_linkedin_content_def Let_def)
  next
    case 3
    then show ?thesis
      using score_clarity_grid [of c] score_engagement_grid [of c]
        score_professionalism_grid [of c]
      by (simp add: score_general_content_def Let_def)
  qed
  moreover obtain a where "seo_score (analyze_content c' keywords) = calculate_seo_score a"
    using seo_score_analyze_content by blast
  ultimately show ?thesis
    using calculate_seo_score_range [of a] by simp
qed



section \<open>Paragraphs\<close>

lemma split_scan_length:
  "length (split_scan sep skip cur s) = count_scan sep skip s + 1"
  by (induction s arbitrary: skip cur) simp_all

text \<open>
  Claim C9. \<open>paragraph_count\<close> is the number of pieces of \<open>content.split('\n\n')\<close>, empty
  pieces included: one more than the number of non-overlapping occurrences of the
  separator, hence at least 1, and 1 for the empty text. Two separators in a row give an
  empty piece that is counted.
\<close>

theorem paragraph_count_is_split_length:
  "paragraph_count (analyze_readability content) = length (py_split content (NL @ NL)) \<and>
   paragraph_count (analyze_readability content) = py_count content (NL @ NL) + 1 \<and>
   1 \<le> paragraph_count (analyze_readability content) \<and>
   paragraph_count (analyze_readability []) = 1 \<and>
   py_split (lit ''a'' @ NL @ NL @ NL @ NL @ lit ''b'') (NL @ NL) = [lit ''a'', [], lit ''b'']"
  by (simp add: analyze_readability_def Let_def py_split_def py_count_def split_scan_length
      startswith_def)

section \<open>Keywords: the dict of \<open>_analyze_keywords\<close>\<close>

lemma remdups_snoc: "remdups (xs @ [k]) = removeAll k (remdups xs) @ [k]"
  by (induction xs) auto

lemma first_occurrences_Cons:
  "rev (remdups (rev ks @ [k])) = k # removeAll k (first_occurrences ks)"
  by (simp add: remdups_snoc removeAll_filter_not_eq rev_filter)

lemma dict_set_present:
  "k \<in> set keys \<Longrightarrow> dict_set k (E k) (map (\<lambda>k. (k, E k)) keys) = map (\<lambda>k. (k, E k)) keys"
  by (induction keys) auto

lemma dict_set_absent:
  "k \<notin> set keys \<Longrightarrow>
   dict_set k (E k) (map (\<lambda>k. (k, E k)) keys) = map (\<lambda>k. (k, E k)) (keys @ [k])"
  by (induction keys) auto

lemma keywords_loop_keys:
  "keywords_loop c n (map (\<lambda>k. (k, keyword_entry c n k)) keys) ks =
   map (\<lambda>k. (k, keyword_entry c n k))
     (keys @ filter (\<lambda>k. k \<notin> set keys) (first_occurrences ks))"
proof (induction ks arbitrary: keys)
  case Nil
  then show ?case by simp
next
  case (Cons k ks)
  show ?case
  proof (cases "k \<in> set keys")
    case True
    have "filter (\<lambda>x. x \<notin> set keys) (removeAll k (first_occurrences ks)) =
          filter (\<lambda>x. x \<notin> set keys) (first_occurrences ks)"
      using True by (simp add: removeAll_filter_not_eq) (metis (mono_tags, lifting) filter_cong)
    with True show ?thesis
      using Cons.IH [of keys]
      by (simp add: dict_set_present [where E = "keyword_entry c n"] first_occurrences_Cons)
  next
    case False
    have "filter (\<lambda>x. x \<notin> set (keys @ [k])) (first_occurrences ks) =
          filter (\<lambda>x. x \<notin> set keys) (removeAll k (first_occurrences ks))"
      by (simp add: removeAll_filter_not_eq) (metis (mono_tags, lifting) filter_cong)
    with False show ?thesis
      using Cons.IH [of "keys @ [k]"]
      by (simp add: dict_set_absent [where E = "keyword_entry c n"] first_occurrences_Cons)
  qed
qed

lemma analyze_keywords_first_occurrences:
  "analyze_keywords c ks =
   map (\<lambda>k. (k, keyword_entry c (count_words c) k)) (first_occurrences ks)"
  using keywords_loop_keys [of c "count_words c" "[]" ks]
  by (simp add: analyze_keywords_def count_words_def Let_def)

lemma first_occurrences_idem: "first_occurrences (first_occurrences ks) = first_occurrences ks"
  by simp

lemma analyze_content_fields:
  "word_count (analyze_content c ks) = count_words c"
  "keyword_analysis (analyze_content c ks) = analyze_keywords c ks"
  "readability (analyze_content c ks) = analyze_readability c"
  "structure' (analyze_content c ks) = analyze_structure c"
  by (simp_all add: analyze_content_def Let_def)

lemma analyze_content_seo_score:
  "seo_score (analyze_content c ks) =
     calculate_seo_score \<lparr>word_count = count_words c, keyword_analysis = analyze_keywords c ks,
       readability = analyze_readability c, structure' = analyze_structure c,
       recommendations = generate_recommendations
         \<lparr>word_count = count_words c, keyword_analysis = analyze_keywords c ks,
          readability = analyze_readability c, structure' = analyze_structure c,
          recommendations = []\<rparr> ks\<rparr>"
  by (simp add: analyze_content_def Let_def)

lemma generate_recommendations_keywords:
  "generate_recommendations a ks = generate_recommendations a ks'"
  by (simp add: generate_recommendations_def)

lemma penalty_loop_sum:
  "penalty_loop score ds = score - sum_list (map keyword_penalty ds)"
  by (induction ds arbitrary: score) simp_all

lemma map_of_entries:
  "map_of (map (\<lambda>k. (k, f k)) xs) k = (if k \<in> set xs then Some (f k) else None)"
  by (induction xs) auto

lemma entry_lookup:
  assumes "map_of (keyword_analysis (analyze_content c ks)) k = Some d"
  shows "d = keyword_entry c (count_words c) k"
  using assms
  by (simp add: analyze_content_fields analyze_keywords_first_occurrences map_of_entries
      split: if_splits)

text \<open>
  Claim C4, as amended. \<open>keyword_analysis\<close> is a dict keyed by the keyword, so a keyword
  that occurs again in the list overwrites its own entry with the same value. The report
  has one entry per distinct keyword, in the order of first occurrence; it is the report
  of the list without its later duplicates; the recommendations hold the messages of
  each distinct keyword once, between the word-count message and the structure messages;
  and the score deducts the keyword penalties (20 for missing, 10 for too_low or
  too_high, 5 more when not in the first paragraph) once per distinct keyword.
\<close>

theorem keywords_processed_once_each:
  "let r = analyze_content c keywords;
       ks = first_occurrences keywords;
       entry = keyword_entry c (word_count r);
       penalty = (\<lambda>d. (if status d = lit ''missing'' then 20
                        else if status d \<noteq> lit ''optimal'' then 10 else 0) +
                       (if \<not> in_first_paragraph d then 5 else (0::int)))
   in keyword_analysis r = map (\<lambda>k. (k, entry k)) ks \<and>
      r = analyze_content c ks \<and>
      recommendations r =
        (if word_count r < 800
         then [lit ''Content is too short. Aim for at least 800 words for better SEO.'']
         else []) @
        concat (map (\<lambda>k. keyword_recommendations (k, entry k)) ks) @
        (if h1_count (structure' r) = 0 then [lit ''Add an H1 heading (title).'']
         else if 1 < h1_count (structure' r) then [lit ''Use only one H1 heading.''] else []) @
        (if h2_count (structure' r) < 2
         then [lit ''Add more H2 subheadings to improve structure.''] else []) @
        (if \<not> has_lists (structure' r)
         then [lit ''Consider adding bullet points or lists for better readability.'']
         else []) @
        (if link_count (structure' r) < 2
         then [lit ''Add internal and external links to improve SEO.''] else []) @
        (if readability_level (readability r) = lit ''difficult''
         then [lit ''Simplify sentence structure for better readability.''] else []) \<and>
      seo_score r =
        max 0 (min 100
          (100 - (if word_count r < 500 then 30 else if word_count r < 800 then 15 else 0)
               - sum_list (map (\<lambda>k. penalty (entry k)) ks)
               - (if \<not> has_proper_hierarchy (structure' r) then 10 else 0)
               - (if link_count (structure' r) < 2 then 5 else 0)))"
proof -
  have idem: "first_occurrences (first_occurrences keywords) = first_occurrences keywords"
    by simp
  have same: "analyze_keywords c (first_occurrences keywords) = analyze_keywords c keywords"
    by (simp only: analyze_keywords_first_occurrences idem)
  have recs: "generate_recommendations a keywords =
      generate_recommendations a (first_occurrences keywords)" for a
    by (rule generate_recommendations_keywords)
  have whole: "analyze_content c keywords = analyze_content c (first_occurrences keywords)"
    unfolding analyze_content_def Let_def same
    by (simp only: recs)
  have ka: "keyword_analysis (analyze_content c keywords) =
      map (\<lambda>k. (k, keyword_entry c (word_count (analyze_content c keywords)) k))
        (first_occurrences keywords)"
    by (simp only: analyze_content_fields analyze_keywords_first_occurrences)
  have loop: "penalty_loop score (map snd (analyze_keywords c keywords)) =
      score - sum_list (map (\<lambda>k. keyword_penalty (keyword_entry c (count_words c) k))
        (first_occurrences keywords))" for score
    by (simp add: penalty_loop_sum analyze_keywords_first_occurrences comp_def)
  have score: "seo_score (analyze_content c keywords) =
      max 0 (min 100
          (100 - (if word_count (analyze_content c keywords) < 500 then 30
                  else if word_count (analyze_content c keywords) < 800 then 15 else 0)
               - sum_list (map (\<lambda>k.
                   (if status (keyword_entry c (word_count (analyze_content c keywords)) k) =
                       lit ''missing'' then 20
                    else if status (keyword_entry c (word_count (analyze_content c keywords)) k) \<noteq>
                       lit ''optimal'' then 10 else 0) +
                   (if \<not> in_first_paragraph
                          (keyword_entry c (word_count (analyze_content c keywords)) k)
                    then 5 else (0::int)))
                   (first_occurrences keywords))
               - (if \<not> has_proper_hierarchy (structure' (analyze_content c keywords))
                  then 10 else 0)
               - (if link_count (structure' (analyze_content c keywords)) < 2 then 5 else 0)))"
    unfolding analyze_content_fields analyze_content_seo_score calculate_seo_score_def Let_def
      keyword_penalty_def [symmetric]
    by (simp add: loop)
  have recommend: "recommendations (analyze_content c keywords) =
        (if word_count (analyze_content c keywords) < 800
         then [lit ''Content is too short. Aim for at least 800 words for better SEO.'']
         else []) @
        concat (map (\<lambda>k. keyword_recommendations
            (k, keyword_entry c (word_count (analyze_content c keywords)) k))
          (first_occurrences keywords)) @
        (if h1_count (structure' (analyze_content c keywords)) = 0
         then [lit ''Add an H1 heading (title).'']
         else if 1 < h1_count (structure' (analyze_content c keywords))
         then [lit ''Use only one H1 heading.''] else []) @
        (if h2_count (structure' (analyze_content c keywords)) < 2
         then [lit ''Add more H2 subheadings to improve structure.''] else []) @
        (if \<not> has_lists (structure' (analyze_content c keywords))
         then [lit ''Consider adding bullet points or lists for better readability.'']
         else []) @
        (if link_count (structure' (analyze_content c keywords)) < 2
         then [lit ''Add internal and external links to improve SEO.''] else []) @
        (if readability_level (readability (analyze_content c keywords)) = lit ''difficult''
         then [lit ''Simplify sentence structure for better readability.''] else [])"
    unfolding analyze_content_fields
    by (simp only: analyze_content_def generate_recommendations_def Let_def
        analyze_keywords_first_occurrences analysis.select_convs analysis.update_convs
        seo_report.select_convs append_assoc map_map o_def)
  show ?thesis
    unfolding Let_def
    using ka whole recommend score by (intro conjI)
qed

text \<open>
  Claim C4 as stated fails. For the empty text and the keyword \<open>seo\<close> given twice the
  report has one entry, not two, and the score is 30, as for the keyword given once; a
  penalty per occurrence would give 100 - 30 - 25 - 25 - 10 - 5 = 5.
\<close>

lemmas seo_eval = analyze_content_fields analyze_content_seo_score calculate_seo_score_def
  analyze_keywords_first_occurrences keyword_entry_def assess_keyword_usage_def
  ideal_keyword_density_def keyword_penalty_def lower_def lower_cp_def is_upper_az_def
  py_count_def count_words_def re_finditer_def re_search_def analyze_structure_def
  startswith_def Let_def

theorem duplicate_keyword_counterexample:
  "length (keyword_analysis (analyze_content [] [lit ''seo'', lit ''seo''])) \<noteq>
     length [lit ''seo'', lit ''seo''] \<and>
   seo_score (analyze_content [] [lit ''seo'']) = 30 \<and>
   seo_score (analyze_content [] [lit ''seo'', lit ''seo'']) = 30"
  by (simp add: seo_eval)

section \<open>The empty keyword\<close>

lemma length_lower: "length (lower c) = length c + count_list c 304"
  by (induction c) (auto simp: lower_def lower_cp_def is_upper_az_def)

lemma entry_fields:
  "count (keyword_entry c n k) = py_count (lower c) (lower k)"
  "in_first_paragraph (keyword_entry c n k) = py_in (lower k) (take 500 (lower c))"
  "status (keyword_entry c n k) =
     assess_keyword_usage
       (if 0 < n then fmul (fdiv (of_nat (py_count (lower c) (lower k))) (of_nat n)) 100 else 0)
       (py_count (lower c) (lower k))"
  "density (keyword_entry c n k) =
     py_round (if 0 < n then fmul (fdiv (of_nat (py_count (lower c) (lower k))) (of_nat n)) 100
               else 0) 2"
  by (simp_all add: keyword_entry_def Let_def)

lemma status_missing_iff:
  "assess_keyword_usage D n = lit ''missing'' \<longleftrightarrow> n = 0"
  by (simp add: assess_keyword_usage_def)

text \<open>
  Claim C10, as amended. For the empty keyword the count is the length of the lower-cased
  text plus 1, so it is never 0 and the status is never \<open>missing\<close>. Lower-casing keeps the
  length of a text except at U+0130, whose lowercase has two code points: the count is
  \<open>len(text) + 1\<close> plus the number of occurrences of U+0130 in the text.
\<close>

theorem empty_keyword_count:
  assumes "map_of (keyword_analysis (analyze_content c keywords)) [] = Some d"
  shows "count d = length (lower c) + 1 \<and> count d = length c + count_list c 304 + 1 \<and>
         status d \<noteq> lit ''missing''"
proof -
  have d: "d = keyword_entry c (count_words c) []"
    using assms by (rule entry_lookup)
  have cnt: "count d = length (lower c) + 1"
    unfolding d entry_fields by (simp add: py_count_def lower_def)
  moreover have "status d \<noteq> lit ''missing''"
    unfolding d entry_fields status_missing_iff by (simp add: py_count_def lower_def)
  ultimately show ?thesis
    by (simp add: length_lower)
qed

text \<open>Claim C10 at the text \<open>Hi\<close> with the empty keyword as the only keyword.\<close>

theorem empty_keyword_count_witness:
  "map_of (keyword_analysis (analyze_content (lit ''Hi'') [[]])) [] =
     Some (keyword_entry (lit ''Hi'') (count_words (lit ''Hi'')) []) \<and>
   count (keyword_entry (lit ''Hi'') (count_words (lit ''Hi'')) []) = 3 \<and>
   status (keyword_entry (lit ''Hi'') (count_words (lit ''Hi'')) []) \<noteq> lit ''missing''"
proof -
  have h: "map_of (keyword_analysis (analyze_content (lit ''Hi'') [[]])) [] =
     Some (keyword_entry (lit ''Hi'') (count_words (lit ''Hi'')) [])"
    by (simp add: analyze_content_fields analyze_keywords_first_occurrences)
  show ?thesis
    using h empty_keyword_count [OF h] by simp
qed

text \<open>
  Claim C10 as stated fails at the one-character text U+0130: the count is 3, the length
  of the text plus 1 is 2.
\<close>

theorem empty_keyword_count_counterexample:
  "map (\<lambda>(k, d). count d) (keyword_analysis (analyze_content [304] [[]])) = [3] \<and>
   length [304::nat] + 1 = 2"
  by (simp add: analyze_content_fields analyze_keywords_first_occurrences entry_fields
      py_count_def lower_def lower_cp_def is_upper_az_def)

section \<open>A missing keyword\<close>








section \<open>The status of a keyword\<close>

text \<open>
  Claim C5, as amended. \<open>_assess_keyword_usage\<close> receives the density before it is
  rounded. For every text and keyword the status is \<open>missing\<close> iff the count is 0, else
  \<open>too_low\<close> iff the unrounded density (count / total words * 100, 0 when there are no
  words) is below 1.0, else \<open>too_high\<close> iff it is above 2.5, else \<open>optimal\<close>; the
  \<open>density\<close> field is that value rounded to 2 decimals.
\<close>

theorem keyword_status_table:
  assumes "map_of (keyword_analysis (analyze_content c keywords)) k = Some d"
  shows "let n = word_count (analyze_content c keywords);
             raw = (if 0 < n then fmul (fdiv (of_nat (count d)) (of_nat n)) 100 else 0)
         in count d = py_count (lower c) (lower k) \<and>
            density d = py_round raw 2 \<and>
            status d = (if count d = 0 then lit ''missing''
                        else if raw < 1 then lit ''too_low''
                        else if 5 / 2 < raw then lit ''too_high''
                        else lit ''optimal'')"
proof -
  have d: "d = keyword_entry c (count_words c) k"
    using assms by (rule entry_lookup)
  show ?thesis
    unfolding Let_def d entry_fields analyze_content_fields
    by (simp add: assess_keyword_usage_def ideal_keyword_density_def)
qed

text \<open>Claim C5 at the text \<open>seo tips\<close> with the keyword \<open>seo\<close>.\<close>

theorem keyword_status_table_witness:
  "map_of (keyword_analysis (analyze_content (lit ''seo tips'') [lit ''seo''])) (lit ''seo'') =
     Some (keyword_entry (lit ''seo tips'') (count_words (lit ''seo tips'')) (lit ''seo'')) \<and>
   (let d = keyword_entry (lit ''seo tips'') (count_words (lit ''seo tips'')) (lit ''seo'');
        n = word_count (analyze_content (lit ''seo tips'') [lit ''seo'']);
        raw = (if 0 < n then fmul (fdiv (of_nat (count d)) (of_nat n)) 100 else 0)
    in count d = py_count (lower (lit ''seo tips'')) (lower (lit ''seo'')) \<and>
       density d = py_round raw 2 \<and>
       status d = (if count d = 0 then lit ''missing''
                   else if raw < 1 then lit ''too_low''
                   else if 5 / 2 < raw then lit ''too_high''
                   else lit ''optimal''))"
proof -
  have h: "map_of (keyword_analysis (analyze_content (lit ''seo tips'') [lit ''seo'']))
      (lit ''seo'') =
     Some (keyword_entry (lit ''seo tips'') (count_words (lit ''seo tips'')) (lit ''seo''))"
    by (simp add: analyze_content_fields analyze_keywords_first_occurrences)
  show ?thesis
    using h keyword_status_table [OF h] by (simp only: Let_def simp_thms)
qed

text \<open>
  A text of 201 words in which the keyword \<open>a\<close> occurs twice: \<open>a a\<close> followed by 199
  times \<open> b\<close>. The next lemmas count its words and the occurrences of the keyword for
  any number of repetitions.
\<close>

lemma lower_unchanged:
  "\<forall>x\<in>set s. \<not> is_upper_az x \<and> x \<noteq> 304 \<Longrightarrow> lower s = s"
  by (induction s) (simp_all add: lower_def lower_cp_def)

lemma scan_word_space:
  "scan word_pat prev 0 (32 # R) = scan word_pat (Some 32) 0 R"
  by (simp add: word_pat_def is_word_opt_def first_char_def is_word_def is_upper_az_def
      is_lower_az_def is_digit_def Let_def)

lemma scan_word_letter:
  assumes "R = [] \<or> (\<exists>R'. R = 32 # R')" "\<not> is_word_opt prev" "is_lower_az w"
  shows "scan word_pat prev 0 (w # R) = (w # R, [0, 1, 0]) # scan word_pat (Some w) 0 R"
  using assms
  by (auto simp: word_pat_def is_word_opt_def first_char_def is_word_def is_upper_az_def
      is_lower_az_def is_digit_def Let_def)

lemma filler_shape:
  "concat (replicate n [32, 98]) = [] \<or> (\<exists>R'. concat (replicate n [32, 98 :: nat]) = 32 # R')"
  by (cases n) simp_all

lemma scan_filler:
  "length (scan word_pat prev 0 (concat (replicate n [32, 98]))) = n"
proof (induction n arbitrary: prev)
  case 0
  then show ?case by simp
next
  case (Suc n)
  have unroll: "concat (replicate (Suc n) [32, 98 :: nat]) =
        32 # 98 # concat (replicate n [32, 98])"
    by simp
  have "scan word_pat prev 0 (concat (replicate (Suc n) [32, 98])) =
        scan word_pat (Some 32) 0 (98 # concat (replicate n [32, 98]))"
    by (simp only: unroll scan_word_space)
  also have "\<dots> = (98 # concat (replicate n [32, 98]), [0, 1, 0]) #
        scan word_pat (Some 98) 0 (concat (replicate n [32, 98]))"
    by (rule scan_word_letter [OF filler_shape])
      (simp_all add: is_word_opt_def is_word_def is_upper_az_def is_lower_az_def is_digit_def)
  finally show ?case
    using Suc.IH [of "Some 98"] by (simp only: list.size length_Cons)
qed

lemma count_filler: "count_scan [97] 0 (concat (replicate n [32, 98])) = 0"
  by (induction n) (simp_all add: startswith_def)

lemma filler_text:
  "lower (97 # 32 # 97 # concat (replicate n [32, 98])) =
   97 # 32 # 97 # concat (replicate n [32, 98])"
  by (rule lower_unchanged) (auto simp: is_upper_az_def)

lemma filler_words: "count_words (97 # 32 # 97 # concat (replicate n [32, 98])) = n + 2"
proof -
  have "scan word_pat None 0 (97 # 32 # 97 # concat (replicate n [32, 98])) =
        (97 # 32 # 97 # concat (replicate n [32, 98]), [0, 1, 0]) #
        scan word_pat (Some 97) 0 (32 # 97 # concat (replicate n [32, 98]))"
    by (rule scan_word_letter) (simp_all add: is_word_opt_def is_lower_az_def)
  also have "scan word_pat (Some 97) 0 (32 # 97 # concat (replicate n [32, 98])) =
        scan word_pat (Some 32) 0 (97 # concat (replicate n [32, 98]))"
    by (rule scan_word_space)
  also have "\<dots> = (97 # concat (replicate n [32, 98]), [0, 1, 0]) #
        scan word_pat (Some 97) 0 (concat (replicate n [32, 98]))"
    by (rule scan_word_letter [OF filler_shape])
      (simp_all add: is_word_opt_def is_word_def is_upper_az_def is_lower_az_def is_digit_def)
  finally have "length (scan word_pat None 0 (97 # 32 # 97 # concat (replicate n [32, 98]))) =
      Suc (Suc (length (scan word_pat (Some 97) 0 (concat (replicate n [32, 98])))))"
    by (simp only: length_Cons)
  then show ?thesis
    unfolding count_words_def re_finditer_def Let_def filler_text
    by (simp only: scan_filler)
qed

lemma filler_count:
  "py_count (lower (97 # 32 # 97 # concat (replicate n [32, 98]))) (lower [97]) = 2"
  unfolding filler_text
  by (simp add: py_count_def lower_def lower_cp_def is_upper_az_def startswith_def count_filler)

lemma density_201:
  "fmul (fdiv 2 201) 100 < 1" "py_round (fmul (fdiv 2 201) 100) 2 = 1"
  by (simp_all add: fdiv_def fmul_def py_round_def to_double_small [where k = 59]
      to_double_small [where k = 53] to_double_small [where k = 52] round_half_even_def
      floor_rat_numeral Let_def)

text \<open>
  Claim C5 as stated fails on that text. The count is 2 and the density is
  2 / 201 * 100 = 0.99502..., so the status is \<open>too_low\<close>; the \<open>density\<close> field is
  \<open>round(0.99502..., 2) = 1.0\<close>, which is not below 1.0.
\<close>

theorem rounded_density_counterexample:
  "map (\<lambda>(k, d). (count d, density d, status d))
     (keyword_analysis
        (analyze_content (lit ''a a'' @ concat (replicate 199 (lit '' b''))) [lit ''a''])) =
   [(2, 1, lit ''too_low'')]"
  by (simp add: analyze_content_fields analyze_keywords_first_occurrences entry_fields
      filler_words filler_count density_201 assess_keyword_usage_def ideal_keyword_density_def
      del: One_nat_def)

end
